theory Spec2Isabelle
  imports Main
begin

section \<open>Data model of the security scanner\<close>

text \<open>
  The scanner of \<^verbatim>\<open>security_scanner.py\<close> collects findings (Python dicts) in the list
  \<^verbatim>\<open>self.findings\<close> and reduces them to a report. A finding is a record; the key
  \<^verbatim>\<open>evidence\<close> is present only in some findings, so it is an option. Text is a
  \<^typ>\<open>string\<close>, a list of 8-bit characters read as the code points below 256: the
  model covers the texts all of whose characters lie below 256.
\<close>

datatype severity = CRITICAL | HIGH | MEDIUM | LOW

record finding =
  severity :: severity
  category :: string
  title :: string
  description :: string
  location :: string
  evidence :: "string option"
  impact :: string

record summary =
  overall_risk :: string
  total_findings :: nat
  critical :: nat
  high :: nat
  medium :: nat
  low :: nat
  recommendation :: string

record report =
  skill :: string
  report_location :: string
  timestamp :: string
  scanner_version :: string
  report_summary :: summary
  findings :: "finding list"

section \<open>Report aggregator\<close>

text \<open>
  \<^verbatim>\<open>severity_counts\<close> starts with the four keys at 0 and is incremented once per finding,
  in the order of the list.
\<close>

record severity_counts =
  n_critical :: nat
  n_high :: nat
  n_medium :: nat
  n_low :: nat

definition zero_counts :: severity_counts where
  "zero_counts = \<lparr>n_critical = 0, n_high = 0, n_medium = 0, n_low = 0\<rparr>"

fun bump_count :: "severity_counts \<Rightarrow> severity \<Rightarrow> severity_counts" where
  "bump_count c CRITICAL = c\<lparr>n_critical := n_critical c + 1\<rparr>"
| "bump_count c HIGH = c\<lparr>n_high := n_high c + 1\<rparr>"
| "bump_count c MEDIUM = c\<lparr>n_medium := n_medium c + 1\<rparr>"
| "bump_count c LOW = c\<lparr>n_low := n_low c + 1\<rparr>"

fun count_findings :: "severity_counts \<Rightarrow> finding list \<Rightarrow> severity_counts" where
  "count_findings c [] = c"
| "count_findings c (f # fs) = count_findings (bump_count c (severity f)) fs"

definition risk_ladder :: "severity_counts \<Rightarrow> string \<times> string" where
  "risk_ladder c =
     (if n_critical c > 0 then (''CRITICAL'', ''REJECT'')
      else if n_high c > 3 then (''HIGH'', ''REVIEW'')
      else if n_high c > 0 then (''MEDIUM-HIGH'', ''REVIEW'')
      else if n_medium c > 5 then (''MEDIUM'', ''REVIEW'')
      else (''LOW'', ''APPROVE''))"

text \<open>
  \<^verbatim>\<open>_generate_report\<close>: the name and path of the bundle and the clock reading
  (\<^verbatim>\<open>datetime.utcnow()\<close>) are inputs of the model.
\<close>

definition generate_report :: "string \<Rightarrow> string \<Rightarrow> string \<Rightarrow> finding list \<Rightarrow> report" where
  "generate_report name path now fs =
     (let c = count_findings zero_counts fs;
          (risk, rec) = risk_ladder c
      in \<lparr>skill = name,
          report_location = path,
          timestamp = now,
          scanner_version = ''1.0'',
          report_summary =
            \<lparr>overall_risk = risk,
             total_findings = length fs,
             critical = n_critical c,
             high = n_high c,
             medium = n_medium c,
             low = n_low c,
             recommendation = rec\<rparr>,
          findings = fs\<rparr>)"

text \<open>The number of findings of a list that carry a given severity.\<close>

definition count_sev :: "severity \<Rightarrow> finding list \<Rightarrow> nat" where
  "count_sev s fs = length (filter (\<lambda>f. severity f = s) fs)"

section \<open>Python string operations\<close>

text \<open>
  The text of a file is a list of 8-bit characters, read as the code points below 256.

  The characters that \<^verbatim>\<open>str.strip()\<close> removes and that \<^verbatim>\<open>\s\<close> matches in a
  \<^verbatim>\<open>str\<close> pattern: tab, line feed, vertical tab, form feed, carriage return, the four
  separators 0x1C to 0x1F, the space, the next-line character 0x85 and the no-break space
  0xA0.
\<close>

definition whitespace :: string where
  "whitespace = [CHR 0x09, CHR 0x0A, CHR 0x0B, CHR 0x0C, CHR 0x0D,
                 CHR 0x1C, CHR 0x1D, CHR 0x1E, CHR 0x1F, CHR 0x20, CHR 0x85, CHR 0xA0]"

definition is_space :: "char \<Rightarrow> bool" where
  "is_space c = (c \<in> set whitespace)"

definition py_strip :: "string \<Rightarrow> string" where
  "py_strip s = rev (dropWhile is_space (rev (dropWhile is_space s)))"

definition upper_letters :: string where
  "upper_letters = ''ABCDEFGHIJKLMNOPQRSTUVWXYZ''"

definition lower_letters :: string where
  "lower_letters = ''abcdefghijklmnopqrstuvwxyz''"

text \<open>
  \<^verbatim>\<open>str.lower()\<close> changes, below 256, the letters A to Z and the letters 0xC0 to 0xDE
  other than the multiplication sign 0xD7; each goes to the character 0x20 above it.
\<close>

definition upper_latin :: string where
  "upper_latin =
     [CHR 0xC0, CHR 0xC1, CHR 0xC2, CHR 0xC3, CHR 0xC4, CHR 0xC5, CHR 0xC6, CHR 0xC7,
      CHR 0xC8, CHR 0xC9, CHR 0xCA, CHR 0xCB, CHR 0xCC, CHR 0xCD, CHR 0xCE, CHR 0xCF,
      CHR 0xD0, CHR 0xD1, CHR 0xD2, CHR 0xD3, CHR 0xD4, CHR 0xD5, CHR 0xD6,
      CHR 0xD8, CHR 0xD9, CHR 0xDA, CHR 0xDB, CHR 0xDC, CHR 0xDD, CHR 0xDE]"

definition lower_latin :: string where
  "lower_latin =
     [CHR 0xE0, CHR 0xE1, CHR 0xE2, CHR 0xE3, CHR 0xE4, CHR 0xE5, CHR 0xE6, CHR 0xE7,
      CHR 0xE8, CHR 0xE9, CHR 0xEA, CHR 0xEB, CHR 0xEC, CHR 0xED, CHR 0xEE, CHR 0xEF,
      CHR 0xF0, CHR 0xF1, CHR 0xF2, CHR 0xF3, CHR 0xF4, CHR 0xF5, CHR 0xF6,
      CHR 0xF8, CHR 0xF9, CHR 0xFA, CHR 0xFB, CHR 0xFC, CHR 0xFD, CHR 0xFE]"

definition lower_char :: "char \<Rightarrow> char" where
  "lower_char c =
     (case map_of (zip (upper_letters @ upper_latin) (lower_letters @ lower_latin)) c of
        Some l \<Rightarrow> l
      | None \<Rightarrow> c)"

definition py_lower :: "string \<Rightarrow> string" where
  "py_lower s = map lower_char s"

text \<open>\<^verbatim>\<open>s.startswith(p)\<close>, and \<^verbatim>\<open>p in s\<close> for strings.\<close>

fun starts_with :: "string \<Rightarrow> string \<Rightarrow> bool" where
  "starts_with [] s = True"
| "starts_with (p # ps) [] = False"
| "starts_with (p # ps) (x # xs) = (p = x \<and> starts_with ps xs)"

fun py_in :: "string \<Rightarrow> string \<Rightarrow> bool" where
  "py_in p [] = starts_with p []"
| "py_in p (x # xs) = (starts_with p (x # xs) \<or> py_in p xs)"

text \<open>
  \<^verbatim>\<open>s.find(p, start)\<close> and \<^verbatim>\<open>s.rfind(p, 0, stop)\<close>: the lowest, respectively highest,
  index of an occurrence of \<open>p\<close> inside the slice, or \<open>-1\<close>. \<open>find_aux p s i\<close> scans the
  suffix \<open>s\<close> that starts at index \<open>i\<close>; \<open>rfind_aux\<close> keeps the last index seen.
\<close>

fun find_aux :: "string \<Rightarrow> string \<Rightarrow> nat \<Rightarrow> int" where
  "find_aux p [] i = (if starts_with p [] then int i else -1)"
| "find_aux p (x # xs) i = (if starts_with p (x # xs) then int i else find_aux p xs (Suc i))"

definition py_find :: "string \<Rightarrow> string \<Rightarrow> nat \<Rightarrow> int" where
  "py_find s p start = (if start > length s then -1 else find_aux p (drop start s) start)"

fun rfind_aux :: "string \<Rightarrow> string \<Rightarrow> nat \<Rightarrow> int \<Rightarrow> int" where
  "rfind_aux p [] i found = (if starts_with p [] then int i else found)"
| "rfind_aux p (x # xs) i found =
     rfind_aux p xs (Suc i) (if starts_with p (x # xs) then int i else found)"

definition py_rfind :: "string \<Rightarrow> string \<Rightarrow> nat \<Rightarrow> int" where
  "py_rfind s p stop = rfind_aux p (take stop s) 0 (-1)"

text \<open>
  Slices: \<^verbatim>\<open>s[a:b]\<close> for indices that are not negative, and \<^verbatim>\<open>s[:n]\<close> for any integer
  \<open>n\<close> (a negative \<open>n\<close> counts from the end). A slice never raises.
\<close>

definition py_slice :: "string \<Rightarrow> nat \<Rightarrow> nat \<Rightarrow> string" where
  "py_slice s a b = take (b - a) (drop a s)"

definition py_slice_to :: "string \<Rightarrow> int \<Rightarrow> string" where
  "py_slice_to s n = (if n < 0 then take (nat (int (length s) + n)) s else take (nat n) s)"

definition count_newlines :: "string \<Rightarrow> nat" where
  "count_newlines s = count_list s (CHR 0x0A)"

text \<open>\<^verbatim>\<open>str(n)\<close> for a number that is not negative.\<close>

definition digit_char :: "nat \<Rightarrow> char" where
  "digit_char d = ''0123456789'' ! d"

fun str_nat :: "nat \<Rightarrow> string" where
  "str_nat n = (if n < 10 then [digit_char n] else str_nat (n div 10) @ [digit_char (n mod 10)])"

declare str_nat.simps [simp del]

section \<open>Regular expressions\<close>

text \<open>
  The patterns of the scanner use literals, character classes, greedy and lazy repetition
  of a class, concatenation and alternation. \<^verbatim>\<open>re\<close> matches by backtracking: the
  alternatives of a pattern are tried in a fixed order (the left branch of \<^verbatim>\<open>|\<close> first, the
  longest repetition first for a greedy \<^verbatim>\<open>*\<close>, the shortest first for \<^verbatim>\<open>*?\<close>) and the
  first complete match wins. \<open>rmatch\<close> returns, for a regular expression and the text at
  the current position, the remainders of the text after every way to match, in exactly
  that order; the head of the list is the match that \<^verbatim>\<open>re\<close> reports.

  The flag \<open>ic\<close> is \<^verbatim>\<open>re.IGNORECASE\<close>: literals are compared after lowering both
  characters. Every class used under this flag contains both cases of its letters.
\<close>

datatype cclass = CIn string | CNotIn string

fun cc_match :: "cclass \<Rightarrow> char \<Rightarrow> bool" where
  "cc_match (CIn cs) c = (c \<in> set cs)"
| "cc_match (CNotIn cs) c = (c \<notin> set cs)"

datatype regex =
    Lit string
  | Cls cclass
  | Star cclass
  | LazyStar cclass
  | Seq regex regex
  | Alt regex regex

fun lit_match :: "bool \<Rightarrow> string \<Rightarrow> string \<Rightarrow> string option" where
  "lit_match ic [] s = Some s"
| "lit_match ic (p # ps) [] = None"
| "lit_match ic (p # ps) (x # xs) =
     (if (if ic then lower_char p = lower_char x else p = x) then lit_match ic ps xs else None)"

fun star_greedy :: "cclass \<Rightarrow> string \<Rightarrow> string list" where
  "star_greedy c [] = [[]]"
| "star_greedy c (x # xs) = (if cc_match c x then star_greedy c xs @ [x # xs] else [x # xs])"

fun star_lazy :: "cclass \<Rightarrow> string \<Rightarrow> string list" where
  "star_lazy c [] = [[]]"
| "star_lazy c (x # xs) = (x # xs) # (if cc_match c x then star_lazy c xs else [])"

fun rmatch :: "bool \<Rightarrow> regex \<Rightarrow> string \<Rightarrow> string list" where
  "rmatch ic (Lit p) s = (case lit_match ic p s of None \<Rightarrow> [] | Some r \<Rightarrow> [r])"
| "rmatch ic (Cls c) s = (case s of [] \<Rightarrow> [] | x # xs \<Rightarrow> if cc_match c x then [xs] else [])"
| "rmatch ic (Star c) s = star_greedy c s"
| "rmatch ic (LazyStar c) s = star_lazy c s"
| "rmatch ic (Seq a b) s = concat (map (rmatch ic b) (rmatch ic a s))"
| "rmatch ic (Alt a b) s = rmatch ic a s @ rmatch ic b s"

text \<open>Concatenation and alternation of several expressions; \<^verbatim>\<open>c{n,}\<close> and \<^verbatim>\<open>c+\<close>.\<close>

fun seqs :: "regex list \<Rightarrow> regex" where
  "seqs [] = Lit []"
| "seqs [r] = r"
| "seqs (r # rs) = Seq r (seqs rs)"

fun alts :: "string list \<Rightarrow> regex" where
  "alts [] = Lit []"
| "alts [p] = Lit p"
| "alts (p # ps) = Alt (Lit p) (alts ps)"

fun at_least :: "nat \<Rightarrow> cclass \<Rightarrow> regex" where
  "at_least 0 c = Star c"
| "at_least (Suc n) c = Seq (Cls c) (at_least n c)"

definition c_space :: cclass where
  "c_space = CIn whitespace"

definition c_dot :: cclass where
  "c_dot = CNotIn [CHR 0x0A]"

definition c_any :: cclass where
  "c_any = CNotIn []"

definition c_alnum :: cclass where
  "c_alnum = CIn (lower_letters @ upper_letters @ ''0123456789'')"

definition c_ident :: cclass where
  "c_ident = CIn (lower_letters @ upper_letters @ ''0123456789_'')"

definition c_quote :: cclass where
  "c_quote = CIn [CHR 0x22, CHR 0x27]"

definition c_not_quote :: cclass where
  "c_not_quote = CNotIn [CHR 0x22, CHR 0x27]"

text \<open>
  A match object: the offsets \<^verbatim>\<open>match.start()\<close> and \<^verbatim>\<open>match.end()\<close>.
  \<open>match_here\<close> is the match that starts at the current position, if there is one.
\<close>

record rematch =
  m_start :: nat
  m_end :: nat

definition match_here :: "bool \<Rightarrow> regex \<Rightarrow> string \<Rightarrow> nat option" where
  "match_here ic r s = (case rmatch ic r s of [] \<Rightarrow> None | rest # _ \<Rightarrow> Some (length s - length rest))"

text \<open>
  \<^verbatim>\<open>re.search\<close> as a test: some position of the text starts a match.
\<close>

fun re_search :: "bool \<Rightarrow> regex \<Rightarrow> string \<Rightarrow> bool" where
  "re_search ic r [] = (match_here ic r [] \<noteq> None)"
| "re_search ic r (x # xs) = (match_here ic r (x # xs) \<noteq> None \<or> re_search ic r xs)"

text \<open>
  \<^verbatim>\<open>re.finditer\<close>: the matches from left to right, each search starting where the
  previous match ended. \<open>finditer_from\<close> scans the suffix \<open>s\<close> that starts at offset
  \<open>pos\<close>. No pattern of the scanner matches the empty string; a match of length 0 is
  reported and the scan moves on by one character.
\<close>

function finditer_from :: "bool \<Rightarrow> regex \<Rightarrow> nat \<Rightarrow> string \<Rightarrow> rematch list" where
  "finditer_from ic r pos [] =
     (case match_here ic r [] of None \<Rightarrow> [] | Some n \<Rightarrow> [\<lparr>m_start = pos, m_end = pos\<rparr>])"
| "finditer_from ic r pos (x # xs) =
     (case match_here ic r (x # xs) of
        None \<Rightarrow> finditer_from ic r (Suc pos) xs
      | Some n \<Rightarrow>
          (if n = 0 then \<lparr>m_start = pos, m_end = pos\<rparr> # finditer_from ic r (Suc pos) xs
           else \<lparr>m_start = pos, m_end = pos + n\<rparr>
                  # finditer_from ic r (pos + n) (drop n (x # xs))))"
  by pat_completeness auto
termination
  by (relation "measure (\<lambda>(ic, r, pos, s). length s)") auto

definition finditer :: "bool \<Rightarrow> regex \<Rightarrow> string \<Rightarrow> rematch list" where
  "finditer ic r s = finditer_from ic r 0 s"

text \<open>\<^verbatim>\<open>match.group(0)\<close>.\<close>

definition group0 :: "string \<Rightarrow> rematch \<Rightarrow> string" where
  "group0 s m = py_slice s (m_start m) (m_end m)"

text \<open>The 1-based line of an offset: \<^verbatim>\<open>content[:offset].count('\n') + 1\<close>.\<close>

definition line_number :: "string \<Rightarrow> nat \<Rightarrow> nat" where
  "line_number content offset = count_newlines (take offset content) + 1"

section \<open>Evidence extractor\<close>

text \<open>
  \<^verbatim>\<open>_get_code_context\<close>. The first loop runs \<^verbatim>\<open>lines_before\<close> times and moves
  \<^verbatim>\<open>line_start\<close> to the newline before it when \<^verbatim>\<open>rfind\<close> finds one; otherwise
  \<^verbatim>\<open>line_start\<close> keeps its value. The second loop moves \<^verbatim>\<open>line_end\<close> to the next
  newline after \<^verbatim>\<open>line_end + 1\<close> and stops at the first search that finds none, where
  \<^verbatim>\<open>line_end\<close> keeps its value too.
\<close>

fun back_lines :: "string \<Rightarrow> nat \<Rightarrow> nat \<Rightarrow> nat" where
  "back_lines content 0 line_start = line_start"
| "back_lines content (Suc k) line_start =
     (let prev_newline = py_rfind content [CHR 0x0A] line_start
      in back_lines content k (if prev_newline \<noteq> -1 then nat prev_newline else line_start))"

fun forward_lines :: "string \<Rightarrow> nat \<Rightarrow> nat \<Rightarrow> nat" where
  "forward_lines content 0 line_end = line_end"
| "forward_lines content (Suc k) line_end =
     (let next_newline = py_find content [CHR 0x0A] (line_end + 1)
      in if next_newline \<noteq> -1 then forward_lines content k (nat next_newline) else line_end)"

definition get_code_context :: "string \<Rightarrow> nat \<Rightarrow> nat \<Rightarrow> nat \<Rightarrow> string" where
  "get_code_context content position lines_before lines_after =
     (let line_start = back_lines content lines_before position;
          line_end = forward_lines content lines_after position;
          context = py_strip (py_slice content line_start line_end)
      in if length context > 200 then take 200 context @ ''...'' else context)"

section \<open>Script analyzer\<close>

text \<open>
  Each check walks a table of patterns and, for every pattern, the matches of
  \<^verbatim>\<open>re.finditer\<close> from left to right, appending one finding at a time. The functions
  below return the findings a check appends, in that order. \<open>file_path\<close> is the text of
  the script's path relative to the bundle.
\<close>

definition bs :: string where
  "bs = [CHR 0x5C]"

definition location_of :: "string \<Rightarrow> nat \<Rightarrow> string" where
  "location_of file_path line_num = file_path @ '':'' @ str_nat line_num"

subsection \<open>Command injection\<close>

definition command_injection_patterns :: "(regex \<times> string \<times> string) list" where
  "command_injection_patterns =
     [(seqs [Lit ''os.system'', Star c_space, Lit ''(''],
       ''os'' @ bs @ ''.system'' @ bs @ ''s*'' @ bs @ ''('',
       ''os.system() call (unsafe command execution)''),
      (seqs [Lit ''subprocess.'', Star (CNotIn ''(''), Lit ''('', Star (CNotIn '')''),
             Lit ''shell'', Star c_space, Lit ''='', Star c_space, Lit ''True''],
       ''subprocess'' @ bs @ ''.[^(]*'' @ bs @ ''([^)]*shell'' @ bs @ ''s*='' @ bs @ ''s*True'',
       ''subprocess with shell=True (command injection risk)''),
      (seqs [Lit ''eval'', Star c_space, Lit ''(''],
       ''eval'' @ bs @ ''s*'' @ bs @ ''('',
       ''eval() call (code execution)''),
      (seqs [Lit ''exec'', Star c_space, Lit ''(''],
       ''exec'' @ bs @ ''s*'' @ bs @ ''('',
       ''exec() call (code execution)''),
      (seqs [Lit ''__import__'', Star c_space, Lit ''(''],
       ''__import__'' @ bs @ ''s*'' @ bs @ ''('',
       ''Dynamic import (code loading)''),
      (seqs [Lit ''compile'', Star c_space, Lit ''(''],
       ''compile'' @ bs @ ''s*'' @ bs @ ''('',
       ''compile() call (dynamic code compilation)'')]"

definition command_injection_finding :: "string \<Rightarrow> string \<Rightarrow> string \<Rightarrow> string \<Rightarrow> rematch \<Rightarrow> finding" where
  "command_injection_finding content file_path pattern desc m =
     \<lparr>severity = CRITICAL,
      category = ''Command Injection'',
      title = desc,
      description = ''Found '' @ pattern @ '' which allows arbitrary code execution'',
      location = location_of file_path (line_number content (m_start m)),
      evidence = Some (get_code_context content (m_start m) 1 1),
      impact = ''Attacker could execute arbitrary commands''\<rparr>"

definition check_command_injection :: "string \<Rightarrow> string \<Rightarrow> finding list" where
  "check_command_injection content file_path =
     concat (map (\<lambda>(r, pattern, desc).
                map (command_injection_finding content file_path pattern desc)
                    (finditer False r content))
             command_injection_patterns)"

subsection \<open>Data exfiltration\<close>

definition network_patterns :: "(regex \<times> string) list" where
  "network_patterns =
     [(Seq (Lit ''requests.'') (alts [''get'', ''post'', ''put'', ''delete'', ''patch'']),
       ''HTTP request (potential data exfiltration)''),
      (Lit ''urllib.request.urlopen'', ''URL open (potential data exfiltration)''),
      (Lit ''socket.connect'', ''Socket connection (network access)''),
      (Lit ''http.client'', ''HTTP client (network access)''),
      (alts [''aiohttp.'', ''httpx.''], ''Async HTTP library (network access)'')]"

definition line_content_of :: "string \<Rightarrow> rematch \<Rightarrow> string" where
  "line_content_of content m =
     (let line_start = nat (py_rfind content [CHR 0x0A] (m_start m) + 1);
          found = py_find content [CHR 0x0A] (m_end m);
          line_end = (if found = -1 then length content else nat found)
      in py_slice content line_start line_end)"

definition data_exfiltration_finding :: "string \<Rightarrow> string \<Rightarrow> string \<Rightarrow> rematch \<Rightarrow> finding" where
  "data_exfiltration_finding content file_path desc m =
     \<lparr>severity = HIGH,
      category = ''Data Exfiltration'',
      title = desc,
      description = ''Network request found - verify it's documented and necessary'',
      location = location_of file_path (line_number content (m_start m)),
      evidence = Some (py_strip (line_content_of content m)),
      impact = ''Could send data to external servers''\<rparr>"

definition check_data_exfiltration :: "string \<Rightarrow> string \<Rightarrow> finding list" where
  "check_data_exfiltration content file_path =
     concat (map (\<lambda>(r, desc).
                map (data_exfiltration_finding content file_path desc) (finditer False r content))
             network_patterns)"

subsection \<open>Credential theft\<close>

definition open_quoted :: "string \<Rightarrow> regex" where
  "open_quoted path = seqs [Lit ''open'', Star c_space, Lit ''('', Star c_space, Cls c_quote, Lit path]"

definition credential_patterns :: "(regex \<times> string) list" where
  "credential_patterns =
     [(open_quoted ''~/.ssh/'', ''Reading SSH keys''),
      (open_quoted ''~/.aws/'', ''Reading AWS credentials''),
      (open_quoted ''~/.netrc'', ''Reading .netrc credentials''),
      (open_quoted ''~/.docker/config.json'', ''Reading Docker credentials''),
      (seqs [Lit ''os.environ['', Cls c_quote, Star c_dot,
             alts [''KEY'', ''SECRET'', ''TOKEN'', ''PASSWORD'']],
       ''Accessing credential environment variables'')]"

definition credential_theft_finding :: "string \<Rightarrow> string \<Rightarrow> string \<Rightarrow> rematch \<Rightarrow> finding" where
  "credential_theft_finding content file_path desc m =
     \<lparr>severity = CRITICAL,
      category = ''Credential Theft'',
      title = desc,
      description = ''Attempting to read sensitive credentials'',
      location = location_of file_path (line_number content (m_start m)),
      evidence = Some (get_code_context content (m_start m) 1 1),
      impact = ''Could steal user credentials''\<rparr>"

definition check_credential_theft :: "string \<Rightarrow> string \<Rightarrow> finding list" where
  "check_credential_theft content file_path =
     concat (map (\<lambda>(r, desc).
                map (credential_theft_finding content file_path desc) (finditer True r content))
             credential_patterns)"

subsection \<open>Obfuscation\<close>

definition obfuscation_patterns :: "(regex \<times> string) list" where
  "obfuscation_patterns =
     [(seqs [Lit ''base64.b64decode'', Star c_space, Lit ''('', Star (CNotIn '')''), Lit '')'',
             Star c_space, Lit ''.decode()''],
       ''Base64 decode (potential obfuscation)''),
      (seqs [Lit ''bytes.fromhex'', Star c_space, Lit ''(''],
       ''Hex string decode (potential obfuscation)''),
      (seqs [Lit ''codecs.decode'', Star c_space, Lit ''('', Star (CNotIn '')''), Lit '','',
             Star c_space, Cls c_quote, Lit ''rot''],
       ''ROT encoding (obfuscation)''),
      (alts [''zlib.decompress'', ''gzip.decompress''], ''Compressed data (potential payload)''),
      (Lit ''marshal.loads'', ''Marshal deserialization (code loading)'')]"

text \<open>The pattern \<^verbatim>\<open>(exec|eval)\s*\(\<close> searched in the text after a match.\<close>

definition exec_eval_call :: regex where
  "exec_eval_call = seqs [alts [''exec'', ''eval''], Star c_space, Lit ''('']"

definition obfuscation_finding :: "string \<Rightarrow> string \<Rightarrow> string \<Rightarrow> rematch \<Rightarrow> finding" where
  "obfuscation_finding content file_path desc m =
     (let context = py_slice content (m_end m) (m_end m + 100);
          (sev, imp) =
            (if re_search False exec_eval_call context
             then (CRITICAL, ''Executing obfuscated code - likely malicious'')
             else (MEDIUM, ''Code obfuscation detected - manual review required''))
      in \<lparr>severity = sev,
          category = ''Obfuscation'',
          title = desc,
          description = ''Code using encoding/compression - may hide malicious intent'',
          location = location_of file_path (line_number content (m_start m)),
          evidence = Some (get_code_context content (m_start m) 1 1),
          impact = imp\<rparr>)"

definition check_obfuscation :: "string \<Rightarrow> string \<Rightarrow> finding list" where
  "check_obfuscation content file_path =
     concat (map (\<lambda>(r, desc).
                map (obfuscation_finding content file_path desc) (finditer False r content))
             obfuscation_patterns)"

subsection \<open>Hardcoded secrets\<close>

definition assignment_of :: "string list \<Rightarrow> nat \<Rightarrow> regex" where
  "assignment_of names n =
     seqs [alts names, Star c_space, Lit ''='', Star c_space, Cls c_quote, at_least n c_not_quote]"

definition secret_patterns :: "(regex \<times> string) list" where
  "secret_patterns =
     [(assignment_of [''API_KEY'', ''APIKEY'', ''API-KEY''] 10, ''Hardcoded API key''),
      (assignment_of [''SECRET'', ''PASSWORD'', ''PASSWD'', ''PWD''] 6, ''Hardcoded password/secret''),
      (assignment_of [''TOKEN'', ''AUTH_TOKEN'', ''ACCESS_TOKEN''] 10, ''Hardcoded token''),
      (Seq (Lit ''sk-'') (at_least 32 c_alnum), ''Stripe/OpenAI API key pattern''),
      (Seq (Lit ''ghp_'') (at_least 36 c_alnum), ''GitHub Personal Access Token'')]"

definition placeholders :: "string list" where
  "placeholders = [''example'', ''placeholder'', ''your_'', ''xxx'', ''test'']"

text \<open>\<^verbatim>\<open>any(placeholder in matched_text.lower() for placeholder in [...])\<close>\<close>

definition is_placeholder :: "string \<Rightarrow> bool" where
  "is_placeholder matched_text = list_ex (\<lambda>placeholder. py_in placeholder (py_lower matched_text)) placeholders"

definition redaction_marker :: string where
  "redaction_marker = ''*** (redacted for security)''"

definition secret_finding :: "string \<Rightarrow> string \<Rightarrow> string \<Rightarrow> rematch \<Rightarrow> finding" where
  "secret_finding content file_path desc m =
     \<lparr>severity = HIGH,
      category = ''Hardcoded Secrets'',
      title = desc,
      description = ''Hardcoded credential found in source code'',
      location = location_of file_path (line_number content (m_start m)),
      evidence = Some ''*** (redacted for security)'',
      impact = ''Credentials could be exposed to anyone with access to skill files''\<rparr>"

text \<open>The inner loop over the matches of one pattern, with its \<^verbatim>\<open>continue\<close>.\<close>

fun secrets_of_matches :: "string \<Rightarrow> string \<Rightarrow> string \<Rightarrow> rematch list \<Rightarrow> finding list" where
  "secrets_of_matches content file_path desc [] = []"
| "secrets_of_matches content file_path desc (m # ms) =
     (if is_placeholder (group0 content m)
      then secrets_of_matches content file_path desc ms
      else secret_finding content file_path desc m
             # secrets_of_matches content file_path desc ms)"

definition check_hardcoded_secrets :: "string \<Rightarrow> string \<Rightarrow> finding list" where
  "check_hardcoded_secrets content file_path =
     concat (map (\<lambda>(r, desc). secrets_of_matches content file_path desc (finditer True r content))
             secret_patterns)"

section \<open>Bundles on disk\<close>

text \<open>
  What the scanner observes of the file system. An entry is a path below the bundle root,
  given by its components; \<open>entries\<close> lists every path below the root in the order in
  which \<^verbatim>\<open>rglob\<close> walks them. Of a file the scanner observes whether it can be opened
  and read (\<open>can_open\<close>; a directory cannot), whether its bytes are valid UTF-8
  (\<open>utf8_ok\<close>), the decoded text with invalid bytes dropped (\<open>file_text\<close>, which is the
  text itself when the bytes are valid), its first four bytes (\<open>file_header\<close>), the text of
  the exception a failed read raises (\<open>read_error\<close>) and the text of the path joined to the
  root (\<open>abs_str\<close>).
\<close>

record file_entry =
  rel_path :: "string list"
  is_file :: bool
  can_open :: bool
  utf8_ok :: bool
  file_text :: string
  file_header :: string
  read_error :: string
  abs_str :: string

record skill_bundle =
  root_exists :: bool
  root_name :: string
  root_str :: string
  entries :: "file_entry list"

datatype scan_error =
    PathDoesNotExist string
  | OpenFailed "string list"
  | DecodeFailed "string list"

definition lookup_path :: "skill_bundle \<Rightarrow> string list \<Rightarrow> file_entry option" where
  "lookup_path b p = find (\<lambda>e. rel_path e = p) (entries b)"

definition path_exists :: "skill_bundle \<Rightarrow> string list \<Rightarrow> bool" where
  "path_exists b p = (case lookup_path b p of None \<Rightarrow> False | Some e \<Rightarrow> True)"

fun path_str :: "string list \<Rightarrow> string" where
  "path_str [] = []"
| "path_str [c] = c"
| "path_str (c # cs) = c @ ''/'' @ path_str cs"

definition entry_name :: "file_entry \<Rightarrow> string" where
  "entry_name e = (case rev (rel_path e) of [] \<Rightarrow> [] | n # ns \<Rightarrow> n)"

text \<open>
  \<^verbatim>\<open>Path.suffix\<close>: the name from its last dot on, when that dot is neither the first nor
  the last character of the name.
\<close>

definition suffix_of :: "string \<Rightarrow> string" where
  "suffix_of name =
     (let i = py_rfind name ''.'' (length name)
      in if 0 < i \<and> i < int (length name) - 1 then drop (nat i) name else [])"

definition entry_suffix :: "file_entry \<Rightarrow> string" where
  "entry_suffix e = suffix_of (entry_name e)"

definition ends_with :: "string \<Rightarrow> string \<Rightarrow> bool" where
  "ends_with s p = starts_with (rev p) (rev s)"

text \<open>\<^verbatim>\<open>(root / d).rglob("*")\<close>, \<^verbatim>\<open>(root / d).rglob("*.py")\<close> and \<^verbatim>\<open>root.rglob("*.py")\<close>.\<close>

definition below :: "string \<Rightarrow> file_entry \<Rightarrow> bool" where
  "below d e = (case rel_path e of [] \<Rightarrow> False | c # cs \<Rightarrow> c = d \<and> cs \<noteq> [])"

definition rglob_all :: "skill_bundle \<Rightarrow> string \<Rightarrow> file_entry list" where
  "rglob_all b d = filter (below d) (entries b)"

definition rglob_py :: "skill_bundle \<Rightarrow> string \<Rightarrow> file_entry list" where
  "rglob_py b d = filter (\<lambda>e. ends_with (entry_name e) ''.py'') (rglob_all b d)"

definition rglob_py_root :: "skill_bundle \<Rightarrow> file_entry list" where
  "rglob_py_root b = filter (\<lambda>e. ends_with (entry_name e) ''.py'') (entries b)"

text \<open>
  \<^verbatim>\<open>read_text(encoding='utf-8')\<close> raises when the file cannot be opened and when its
  bytes are not valid UTF-8; with \<^verbatim>\<open>errors='ignore'\<close> only when it cannot be opened.
\<close>

definition read_text_strict :: "file_entry \<Rightarrow> scan_error + string" where
  "read_text_strict e =
     (if \<not> can_open e then Inl (OpenFailed (rel_path e))
      else if \<not> utf8_ok e then Inl (DecodeFailed (rel_path e))
      else Inr (file_text e))"

definition read_text_ignore :: "file_entry \<Rightarrow> scan_error + string" where
  "read_text_ignore e =
     (if \<not> can_open e then Inl (OpenFailed (rel_path e)) else Inr (file_text e))"

text \<open>A loop over files whose body may raise: the first exception ends it.\<close>

fun collect :: "('a \<Rightarrow> scan_error + finding list) \<Rightarrow> 'a list \<Rightarrow> scan_error + finding list" where
  "collect f [] = Inr []"
| "collect f (x # xs) =
     (case f x of
        Inl err \<Rightarrow> Inl err
      | Inr fs \<Rightarrow> (case collect f xs of Inl err \<Rightarrow> Inl err | Inr gs \<Rightarrow> Inr (fs @ gs)))"

fun read_all :: "file_entry list \<Rightarrow> scan_error + string list" where
  "read_all [] = Inr []"
| "read_all (e # es) =
     (case read_text_ignore e of
        Inl err \<Rightarrow> Inl err
      | Inr t \<Rightarrow> (case read_all es of Inl err \<Rightarrow> Inl err | Inr ts \<Rightarrow> Inr (t # ts)))"

section \<open>Manifest checks\<close>

definition manifest_path :: "string list" where
  "manifest_path = [''SKILL.md'']"

definition structure_finding :: "skill_bundle \<Rightarrow> finding" where
  "structure_finding b =
     \<lparr>severity = CRITICAL,
      category = ''Structure'',
      title = ''Missing SKILL.md'',
      description = ''Required SKILL.md file not found'',
      location = root_str b,
      evidence = None,
      impact = ''Skill cannot function without SKILL.md''\<rparr>"

definition check_skill_structure :: "skill_bundle \<Rightarrow> finding list" where
  "check_skill_structure b = (if \<not> path_exists b manifest_path then [structure_finding b] else [])"

text \<open>
  \<^verbatim>\<open>re.match(r'^---\n(.*?)\n---', content, re.DOTALL)\<close> and its group 1: after the
  opening line, the lazy repetition is extended one character at a time until the closing
  delimiter follows.
\<close>

definition frontmatter_of :: "string \<Rightarrow> string option" where
  "frontmatter_of content =
     (case rmatch False (Lit ''---\<newline>'') content of
        [] \<Rightarrow> None
      | r1 # _ \<Rightarrow>
          (case find (\<lambda>r2. rmatch False (Lit ''\<newline>---'') r2 \<noteq> []) (rmatch False (LazyStar c_any) r1) of
             None \<Rightarrow> None
           | Some r2 \<Rightarrow> Some (take (length r1 - length r2) r1)))"

definition yaml_patterns :: "(regex \<times> string \<times> string) list" where
  "yaml_patterns =
     [(seqs [Lit ''!'', Star c_space, Lit ''<''], ''!'' @ bs @ ''s*<'',
       ''YAML tag directive (potential code execution)''),
      (Lit ''__proto__'', ''__proto__'', ''Prototype pollution attempt''),
      (Lit ''!!python'', ''!!python'', ''Python object deserialization''),
      (Lit ''eval('', ''eval'' @ bs @ ''('', ''Eval function call in YAML''),
      (Lit ''exec('', ''exec'' @ bs @ ''('', ''Exec function call in YAML'')]"

definition missing_frontmatter_finding :: finding where
  "missing_frontmatter_finding =
     \<lparr>severity = HIGH,
      category = ''YAML'',
      title = ''Missing YAML frontmatter'',
      description = ''SKILL.md missing required YAML frontmatter'',
      location = ''SKILL.md:1'',
      evidence = None,
      impact = ''Skill metadata cannot be parsed''\<rparr>"

definition yaml_injection_finding :: "string \<Rightarrow> string \<Rightarrow> finding" where
  "yaml_injection_finding pattern desc =
     \<lparr>severity = CRITICAL,
      category = ''YAML Injection'',
      title = ''Dangerous YAML pattern: '' @ desc,
      description = ''YAML frontmatter contains '' @ [CHR 0x27] @ pattern @ [CHR 0x27]
                    @ '' which could execute code'',
      location = ''SKILL.md frontmatter'',
      evidence = None,
      impact = ''Arbitrary code execution during skill parsing''\<rparr>"

definition scan_yaml_frontmatter :: "skill_bundle \<Rightarrow> scan_error + finding list" where
  "scan_yaml_frontmatter b =
     (case lookup_path b manifest_path of
        None \<Rightarrow> Inr []
      | Some skill_md \<Rightarrow>
          (case read_text_strict skill_md of
             Inl err \<Rightarrow> Inl err
           | Inr content \<Rightarrow>
               (case frontmatter_of content of
                  None \<Rightarrow> Inr [missing_frontmatter_finding]
                | Some frontmatter \<Rightarrow>
                    Inr (concat (map (\<lambda>(r, pattern, desc).
                                   if re_search True r frontmatter
                                   then [yaml_injection_finding pattern desc] else [])
                                 yaml_patterns)))))"

section \<open>Scripts, references and assets\<close>

definition file_access_finding :: "file_entry \<Rightarrow> finding" where
  "file_access_finding e =
     \<lparr>severity = MEDIUM,
      category = ''File Access'',
      title = ''Cannot read script: '' @ entry_name e,
      description = ''Error reading file: '' @ read_error e,
      location = abs_str e,
      evidence = None,
      impact = ''Unable to analyze script for security issues''\<rparr>"

definition analyze_script :: "file_entry \<Rightarrow> finding list" where
  "analyze_script e =
     (case read_text_strict e of
        Inl err \<Rightarrow> [file_access_finding e]
      | Inr content \<Rightarrow>
          (let relative_path = path_str (rel_path e)
           in check_command_injection content relative_path
              @ check_data_exfiltration content relative_path
              @ check_credential_theft content relative_path
              @ check_obfuscation content relative_path
              @ check_hardcoded_secrets content relative_path))"

definition script_suffixes :: "string list" where
  "script_suffixes = [''.py'', ''.sh'', ''.bash'', ''.js'']"

definition scan_scripts :: "skill_bundle \<Rightarrow> finding list" where
  "scan_scripts b =
     (if \<not> path_exists b [''scripts''] then []
      else concat (map analyze_script
                    (filter (\<lambda>e. is_file e \<and> entry_suffix e \<in> set script_suffixes)
                            (rglob_all b ''scripts''))))"

text \<open>The pattern \<^verbatim>\<open>```.*(?:eval|exec|os\.system)\<close> of the reference analyzer.\<close>

definition reference_code_pattern :: regex where
  "reference_code_pattern = seqs [Lit ''```'', Star c_dot, alts [''eval'', ''exec'', ''os.system'']]"

definition reference_finding :: "file_entry \<Rightarrow> finding" where
  "reference_finding e =
     \<lparr>severity = MEDIUM,
      category = ''References'',
      title = ''Executable code in reference: '' @ entry_name e,
      description = ''Reference documentation contains executable code patterns'',
      location = path_str (rel_path e),
      evidence = None,
      impact = ''Verify code examples are safe and intended''\<rparr>"

text \<open>The body of the loop of \<^verbatim>\<open>_scan_references\<close>, inside \<^verbatim>\<open>try: ... except: pass\<close>.\<close>

definition scan_reference :: "file_entry \<Rightarrow> finding list" where
  "scan_reference e =
     (case read_text_ignore e of
        Inl err \<Rightarrow> []
      | Inr content \<Rightarrow>
          (if entry_suffix e = ''.md'' \<and> re_search False reference_code_pattern content
           then [reference_finding e] else []))"

definition scan_references :: "skill_bundle \<Rightarrow> finding list" where
  "scan_references b =
     (if \<not> path_exists b [''references''] then []
      else concat (map scan_reference (filter is_file (rglob_all b ''references''))))"

definition asset_suffixes :: "string list" where
  "asset_suffixes = [''.txt'', ''.md'', ''.pdf'', ''.png'', ''.jpg'']"

definition executable_headers :: "string list" where
  "executable_headers =
     [[CHR 0x7F, CHR ''E'', CHR ''L'', CHR ''F''],
      [CHR ''M'', CHR ''Z'', CHR 0x90, CHR 0x00],
      [CHR 0xCA, CHR 0xFE, CHR 0xBA, CHR 0xBE]]"

definition asset_finding :: "file_entry \<Rightarrow> finding" where
  "asset_finding e =
     \<lparr>severity = CRITICAL,
      category = ''Assets'',
      title = ''Executable disguised as '' @ entry_suffix e,
      description = ''File '' @ entry_name e @ '' appears to be executable'',
      location = path_str (rel_path e),
      evidence = None,
      impact = ''Malicious executable hiding as innocent file type''\<rparr>"

text \<open>
  The body of the loop of \<^verbatim>\<open>_scan_assets\<close>: \<^verbatim>\<open>with open(asset_file, 'rb') as f\<close>
  stands in no \<^verbatim>\<open>try\<close>, so a file that cannot be opened raises out of the scan.
\<close>

definition scan_asset :: "file_entry \<Rightarrow> scan_error + finding list" where
  "scan_asset e =
     (if entry_suffix e \<in> set asset_suffixes
      then (if \<not> can_open e then Inl (OpenFailed (rel_path e))
            else if file_header e \<in> set executable_headers then Inr [asset_finding e]
            else Inr [])
      else Inr [])"

definition scan_assets :: "skill_bundle \<Rightarrow> scan_error + finding list" where
  "scan_assets b =
     (if \<not> path_exists b [''assets''] then Inr []
      else collect scan_asset (filter is_file (rglob_all b ''assets'')))"

section \<open>Correlators\<close>

subsection \<open>Dependencies\<close>

text \<open>
  \<^verbatim>\<open>re.findall(r'^\s*(?:import|from)\s+([a-zA-Z0-9_]+)', content, re.MULTILINE)\<close>
  returns group 1 of every match. \<open>import_here\<close> is the match at the current position:
  the first way, in the order of backtracking, to match the part before the group and then
  the group; it gives the text of the group and the length of the whole match. The anchor
  \<^verbatim>\<open>^\<close> holds at the start of the text and after a newline: \<open>imports_from bol s\<close> scans
  the rest \<open>s\<close> of the text, \<open>bol\<close> telling whether its first position is such a place.
\<close>

definition import_keyword :: regex where
  "import_keyword = seqs [Star c_space, alts [''import'', ''from''], at_least 1 c_space]"

definition import_name :: regex where
  "import_name = at_least 1 c_ident"

definition import_here :: "string \<Rightarrow> (string \<times> nat) option" where
  "import_here s =
     (case concat (map (\<lambda>r1. map (\<lambda>r2. (r1, r2)) (rmatch False import_name r1))
                       (rmatch False import_keyword s)) of
        [] \<Rightarrow> None
      | (r1, r2) # _ \<Rightarrow> Some (take (length r1 - length r2) r1, length s - length r2))"

function imports_from :: "bool \<Rightarrow> string \<Rightarrow> string list" where
  "imports_from bol [] = []"
| "imports_from bol (x # xs) =
     (case (if bol then import_here (x # xs) else None) of
        None \<Rightarrow> imports_from (x = CHR 0x0A) xs
      | Some (name, n) \<Rightarrow>
          (if n = 0 then name # imports_from (x = CHR 0x0A) xs
           else name # imports_from ((x # xs) ! (n - 1) = CHR 0x0A) (drop n (x # xs))))"
  by pat_completeness auto
termination
  by (relation "measure (\<lambda>(bol, s). length s)") auto

definition find_imports :: "string \<Rightarrow> string list" where
  "find_imports content = imports_from True content"

definition suspicious_packages :: "(string \<times> string) list" where
  "suspicious_packages =
     [(''reqeusts'', ''requests''), (''urlib'', ''urllib''), (''subproces'', ''subprocess'')]"

definition supply_chain_finding :: "string \<Rightarrow> string \<Rightarrow> finding" where
  "supply_chain_finding pkg canonical =
     \<lparr>severity = CRITICAL,
      category = ''Supply Chain'',
      title = ''Typosquatting attempt: '' @ pkg,
      description = ''Package '' @ [CHR 0x27] @ pkg @ [CHR 0x27] @ '' looks like typo of ''
                    @ [CHR 0x27] @ canonical @ [CHR 0x27],
      location = ''scripts/'',
      evidence = None,
      impact = ''Could be malicious package masquerading as legitimate library''\<rparr>"

text \<open>
  The loop over the set \<^verbatim>\<open>all_imports\<close>. The set is given as the list of its elements in
  the order in which Python iterates over it, which the language leaves open.
\<close>

fun dependency_findings :: "string list \<Rightarrow> finding list" where
  "dependency_findings [] = []"
| "dependency_findings (pkg # pkgs) =
     (case map_of suspicious_packages pkg of
        None \<Rightarrow> dependency_findings pkgs
      | Some canonical \<Rightarrow> supply_chain_finding pkg canonical # dependency_findings pkgs)"

text \<open>
  \<^verbatim>\<open>all_imports\<close> as the scanner builds it: the imports of every \<^verbatim>\<open>*.py\<close> path below
  \<^verbatim>\<open>scripts\<close>. A path that cannot be read raises.
\<close>

definition all_imports :: "skill_bundle \<Rightarrow> scan_error + string list" where
  "all_imports b =
     (case read_all (rglob_py b ''scripts'') of
        Inl err \<Rightarrow> Inl err
      | Inr contents \<Rightarrow> Inr (concat (map find_imports contents)))"

text \<open>
  \<open>set_order\<close> is the order in which the set is iterated: any function that lists each
  element of the set once (see \<open>lists_set\<close>); \<^const>\<open>remdups\<close> is one.
\<close>

definition lists_set :: "(string list \<Rightarrow> string list) \<Rightarrow> bool" where
  "lists_set set_order = (\<forall>xs. distinct (set_order xs) \<and> set (set_order xs) = set xs)"

definition check_dependencies :: "(string list \<Rightarrow> string list) \<Rightarrow> skill_bundle \<Rightarrow> scan_error + finding list" where
  "check_dependencies set_order b =
     (if \<not> path_exists b [''scripts''] then Inr []
      else (case all_imports b of
              Inl err \<Rightarrow> Inl err
            | Inr imports \<Rightarrow> Inr (dependency_findings (set_order imports))))"

subsection \<open>Network operations\<close>

definition network_call_pattern :: regex where
  "network_call_pattern =
     seqs [alts [''requests'', ''urllib'', ''socket'', ''http''], Star c_space, Lit ''.'',
           Star c_space, alts [''get'', ''post'', ''connect'', ''urlopen'']]"

definition network_words_pattern :: regex where
  "network_words_pattern = alts [''network'', ''http'', ''api'', ''request'']"

definition documentation_finding :: "nat \<Rightarrow> finding" where
  "documentation_finding network_count =
     \<lparr>severity = HIGH,
      category = ''Documentation'',
      title = ''Undocumented network access'',
      description = ''Found '' @ str_nat network_count
                    @ '' files with network operations but no mention in SKILL.md'',
      location = ''SKILL.md'',
      evidence = None,
      impact = ''Users unaware skill makes external requests''\<rparr>"

definition check_network_operations :: "skill_bundle \<Rightarrow> scan_error + finding list" where
  "check_network_operations b =
     (case read_all (rglob_py_root b) of
        Inl err \<Rightarrow> Inl err
      | Inr contents \<Rightarrow>
          (let network_count = length (filter (re_search False network_call_pattern) contents)
           in if network_count > 0
              then (case lookup_path b manifest_path of
                      None \<Rightarrow> Inr []
                    | Some skill_md \<Rightarrow>
                        (case read_text_strict skill_md of
                           Inl err \<Rightarrow> Inl err
                         | Inr skill_content \<Rightarrow>
                             (if \<not> re_search True network_words_pattern skill_content
                              then Inr [documentation_finding network_count]
                              else Inr [])))
              else Inr []))"

subsection \<open>File operations\<close>

text \<open>The pattern \<^verbatim>\<open>open\s*\([^)]*\.\./|/tmp/|/etc/|/var/\<close>: four alternatives.\<close>

definition risky_path_pattern :: regex where
  "risky_path_pattern =
     Alt (seqs [Lit ''open'', Star c_space, Lit ''('', Star (CNotIn '')''), Lit ''../''])
         (alts [''/tmp/'', ''/etc/'', ''/var/''])"

text \<open>Python's \<^verbatim>\<open>a or b\<close> on integers: \<open>a\<close> unless it is 0.\<close>

definition py_or :: "int \<Rightarrow> int \<Rightarrow> int" where
  "py_or a b = (if a \<noteq> 0 then a else b)"

text \<open>
  \<^verbatim>\<open>line_num = content.find('../') or content.find('/tmp/') or content.find('/etc/')\<close>
  and then
  \<^verbatim>\<open>line_num = content[:line_num].count('\n') + 1 if line_num else 0\<close>.
\<close>

definition risky_offset :: "string \<Rightarrow> int" where
  "risky_offset content =
     py_or (py_find content ''../'' 0) (py_or (py_find content ''/tmp/'' 0) (py_find content ''/etc/'' 0))"

definition risky_line :: "string \<Rightarrow> nat" where
  "risky_line content =
     (let line_num = risky_offset content
      in if line_num \<noteq> 0 then count_newlines (py_slice_to content line_num) + 1 else 0)"

definition file_operations_finding :: "string \<Rightarrow> string \<Rightarrow> finding" where
  "file_operations_finding content relative_path =
     \<lparr>severity = HIGH,
      category = ''File Operations'',
      title = ''Suspicious file path access'',
      description = ''File access to paths outside skill directory'',
      location = location_of relative_path (risky_line content),
      evidence = None,
      impact = ''Could access/modify files outside skill scope''\<rparr>"

text \<open>The body of the loop of \<^verbatim>\<open>_check_file_operations\<close> for one file that was read.\<close>

definition file_operations_of :: "string \<Rightarrow> string \<Rightarrow> finding list" where
  "file_operations_of content relative_path =
     (if re_search False risky_path_pattern content
      then [file_operations_finding content relative_path] else [])"

definition check_file_operation :: "file_entry \<Rightarrow> scan_error + finding list" where
  "check_file_operation e =
     (case read_text_ignore e of
        Inl err \<Rightarrow> Inl err
      | Inr content \<Rightarrow> Inr (file_operations_of content (path_str (rel_path e))))"

definition check_file_operations :: "skill_bundle \<Rightarrow> scan_error + finding list" where
  "check_file_operations b = collect check_file_operation (rglob_py_root b)"

section \<open>Scan orchestrator\<close>

text \<open>
  \<^verbatim>\<open>scan\<close> raises \<^verbatim>\<open>ValueError\<close> when the path does not exist, runs the eight checks
  in their order and builds the report; an exception of a check ends the scan.
\<close>

fun run_checks :: "(skill_bundle \<Rightarrow> scan_error + finding list) list \<Rightarrow> skill_bundle \<Rightarrow> finding list
                     \<Rightarrow> scan_error + finding list" where
  "run_checks [] b acc = Inr acc"
| "run_checks (c # cs) b acc =
     (case c b of Inl err \<Rightarrow> Inl err | Inr fs \<Rightarrow> run_checks cs b (acc @ fs))"

definition checks :: "(string list \<Rightarrow> string list) \<Rightarrow> (skill_bundle \<Rightarrow> scan_error + finding list) list" where
  "checks set_order =
     [\<lambda>b. Inr (check_skill_structure b),
      scan_yaml_frontmatter,
      \<lambda>b. Inr (scan_scripts b),
      \<lambda>b. Inr (scan_references b),
      scan_assets,
      check_dependencies set_order,
      check_network_operations,
      check_file_operations]"

definition scan :: "(string list \<Rightarrow> string list) \<Rightarrow> string \<Rightarrow> skill_bundle \<Rightarrow> scan_error + report" where
  "scan set_order now b =
     (if \<not> root_exists b then Inl (PathDoesNotExist (root_str b))
      else (case run_checks (checks set_order) b [] of
              Inl err \<Rightarrow> Inl err
            | Inr fs \<Rightarrow> Inr (generate_report (root_name b) (root_str b) now fs)))"

section \<open>Matches in detection order\<close>

text \<open>
  The matches that the obfuscation check and the secrets check visit, in the order of their
  loops: pattern by pattern, and for each pattern from left to right. A secrets match is
  paired with the description of its pattern.
\<close>

definition obfuscation_matches :: "string \<Rightarrow> rematch list" where
  "obfuscation_matches content =
     concat (map (\<lambda>(r, desc). finditer False r content) obfuscation_patterns)"

definition secret_matches :: "string \<Rightarrow> (string \<times> rematch) list" where
  "secret_matches content =
     concat (map (\<lambda>(r, desc). map (\<lambda>m. (desc, m)) (finditer True r content)) secret_patterns)"


section \<open>Categories of the manifest checks\<close>


section \<open>Example bundles\<close>

text \<open>
  Small bundles on which the checks are evaluated: a readable text file, a directory and a
  file that cannot be opened, all below the root \<^verbatim>\<open>/skills/demo\<close>.
\<close>

definition example_file :: "string list \<Rightarrow> string \<Rightarrow> file_entry" where
  "example_file p t =
     \<lparr>rel_path = p, is_file = True, can_open = True, utf8_ok = True, file_text = t,
      file_header = take 4 t, read_error = [], abs_str = ''/skills/demo/'' @ path_str p\<rparr>"

definition example_dir :: "string list \<Rightarrow> file_entry" where
  "example_dir p =
     \<lparr>rel_path = p, is_file = False, can_open = False, utf8_ok = False, file_text = [],
      file_header = [], read_error = ''Is a directory'', abs_str = ''/skills/demo/'' @ path_str p\<rparr>"

definition unreadable_file :: "string list \<Rightarrow> file_entry" where
  "unreadable_file p =
     \<lparr>rel_path = p, is_file = True, can_open = False, utf8_ok = False, file_text = [],
      file_header = [], read_error = ''Permission denied'', abs_str = ''/skills/demo/'' @ path_str p\<rparr>"

definition example_bundle :: "file_entry list \<Rightarrow> skill_bundle" where
  "example_bundle es =
     \<lparr>root_exists = True, root_name = ''demo'', root_str = ''/skills/demo'', entries = es\<rparr>"

definition example_manifest :: file_entry where
  "example_manifest =
     example_file [''SKILL.md''] ''---\<newline>name: demo\<newline>---\<newline>A demo skill.\<newline>''"

text \<open>Two scripts that import the misspelt \<^verbatim>\<open>reqeusts\<close> three times between them.\<close>

definition typosquat_bundle :: skill_bundle where
  "typosquat_bundle =
     example_bundle
       [example_manifest, example_dir [''scripts''],
        example_file [''scripts'', ''a.py''] ''import reqeusts\<newline>import os\<newline>import reqeusts\<newline>'',
        example_file [''scripts'', ''b.py''] ''from reqeusts import get\<newline>'']"

text \<open>An image below \<^verbatim>\<open>assets\<close>, and a note below \<^verbatim>\<open>references\<close>, that cannot be opened.\<close>

definition unreadable_asset_bundle :: skill_bundle where
  "unreadable_asset_bundle =
     example_bundle
       [example_manifest, example_dir [''assets''], unreadable_file [''assets'', ''logo.png'']]"

definition unreadable_reference_bundle :: skill_bundle where
  "unreadable_reference_bundle =
     example_bundle
       [example_manifest, example_dir [''references''], unreadable_file [''references'', ''notes.md'']]"

text \<open>A script that imports the misspelt \<^verbatim>\<open>reqeusts\<close> beside a script that cannot be opened.\<close>

definition unreadable_script_bundle :: skill_bundle where
  "unreadable_script_bundle =
     example_bundle
       [example_manifest, example_dir [''scripts''],
        example_file [''scripts'', ''a.py''] ''import reqeusts\<newline>'',
        unreadable_file [''scripts'', ''b.py'']]"



text \<open>The findings of a scan that returned a report.\<close>

definition findings_of :: "scan_error + report \<Rightarrow> finding list option" where
  "findings_of res = (case res of Inl err \<Rightarrow> None | Inr r \<Rightarrow> Some (findings r))"

section \<open>Properties of the report aggregator\<close>

lemma count_findings_acc:
  "count_findings c fs =
     \<lparr>n_critical = n_critical c + count_sev CRITICAL fs,
      n_high = n_high c + count_sev HIGH fs,
      n_medium = n_medium c + count_sev MEDIUM fs,
      n_low = n_low c + count_sev LOW fs\<rparr>"
proof (induction fs arbitrary: c)
  case Nil
  show ?case by (simp add: count_sev_def)
next
  case (Cons f fs)
  show ?case
    by (cases "severity f") (simp_all add: Cons.IH count_sev_def)
qed

lemma count_findings_zero:
  "count_findings zero_counts fs =
     \<lparr>n_critical = count_sev CRITICAL fs, n_high = count_sev HIGH fs,
      n_medium = count_sev MEDIUM fs, n_low = count_sev LOW fs\<rparr>"
  by (subst count_findings_acc) (simp add: zero_counts_def)

lemma count_sev_total:
  "count_sev CRITICAL fs + count_sev HIGH fs + count_sev MEDIUM fs + count_sev LOW fs = length fs"
proof (induction fs)
  case Nil
  show ?case by (simp add: count_sev_def)
next
  case (Cons f fs)
  then show ?case
    by (cases "severity f") (simp_all add: count_sev_def)
qed

text \<open>
  C1. For every findings sequence the aggregator derives the overall risk and the
  recommendation by the first-match ladder on the severity counts: a CRITICAL count above 0
  gives CRITICAL and REJECT whatever the other counts are; else a HIGH count above 3 gives
  HIGH and REVIEW; else a HIGH count above 0 gives MEDIUM-HIGH and REVIEW; else a MEDIUM
  count above 5 gives MEDIUM and REVIEW; otherwise LOW and APPROVE.
\<close>

theorem generate_report_ladder:
  "(overall_risk (report_summary (generate_report name path now fs)),
    recommendation (report_summary (generate_report name path now fs))) =
     (if count_sev CRITICAL fs > 0 then (''CRITICAL'', ''REJECT'')
      else if count_sev HIGH fs > 3 then (''HIGH'', ''REVIEW'')
      else if count_sev HIGH fs > 0 then (''MEDIUM-HIGH'', ''REVIEW'')
      else if count_sev MEDIUM fs > 5 then (''MEDIUM'', ''REVIEW'')
      else (''LOW'', ''APPROVE''))"
  by (simp add: generate_report_def risk_ladder_def count_findings_zero Let_def)

text \<open>
  C2. In every generated report the four per-severity counts of the summary add up to
  \<^verbatim>\<open>total_findings\<close>, which is the length of the report's findings sequence, and each
  count is the number of findings of the sequence that carry that severity.
\<close>

theorem generate_report_counts:
  "critical (report_summary (generate_report name path now fs))
     + high (report_summary (generate_report name path now fs))
     + medium (report_summary (generate_report name path now fs))
     + low (report_summary (generate_report name path now fs))
     = total_findings (report_summary (generate_report name path now fs))
   \<and> total_findings (report_summary (generate_report name path now fs))
     = length (findings (generate_report name path now fs))
   \<and> critical (report_summary (generate_report name path now fs))
     = count_sev CRITICAL (findings (generate_report name path now fs))
   \<and> high (report_summary (generate_report name path now fs))
     = count_sev HIGH (findings (generate_report name path now fs))
   \<and> medium (report_summary (generate_report name path now fs))
     = count_sev MEDIUM (findings (generate_report name path now fs))
   \<and> low (report_summary (generate_report name path now fs))
     = count_sev LOW (findings (generate_report name path now fs))"
  using count_sev_total [of fs]
  by (simp add: generate_report_def Let_def count_findings_zero split: prod.splits)

section \<open>Properties of the Python string operations\<close>

lemma starts_with_iff: "starts_with p s \<longleftrightarrow> (\<exists>post. s = p @ post)"
  by (induction p s rule: starts_with.induct) auto

lemma py_in_iff: "py_in p s \<longleftrightarrow> (\<exists>pre post. s = pre @ p @ post)"
proof (induction s)
  case Nil
  show ?case by (cases p) auto
next
  case (Cons x xs)
  show ?case
  proof
    assume "py_in p (x # xs)"
    then consider "starts_with p (x # xs)" | "py_in p xs" by auto
    then show "\<exists>pre post. x # xs = pre @ p @ post"
    proof cases
      case 1
      then obtain post where "x # xs = p @ post" by (auto simp: starts_with_iff)
      then have "x # xs = [] @ p @ post" by simp
      then show ?thesis by blast
    next
      case 2
      then obtain pre post where "xs = pre @ p @ post" using Cons.IH by auto
      then have "x # xs = (x # pre) @ p @ post" by simp
      then show ?thesis by blast
    qed
  next
    assume "\<exists>pre post. x # xs = pre @ p @ post"
    then obtain pre post where e: "x # xs = pre @ p @ post" by blast
    show "py_in p (x # xs)"
    proof (cases pre)
      case Nil
      then have "starts_with p (x # xs)" using e by (auto simp: starts_with_iff)
      then show ?thesis by simp
    next
      case (Cons y pre')
      then have "xs = pre' @ p @ post" using e by simp
      then have "py_in p xs" using Cons.IH by blast
      then show ?thesis by simp
    qed
  qed
qed

section \<open>Properties of the script analyzer\<close>

subsection \<open>Obfuscation\<close>




text \<open>
  The two examples of the specification: a base64 decode followed by \<^verbatim>\<open>eval(\<close> gives one
  CRITICAL finding, the decode alone one MEDIUM finding.
\<close>

lemma obfuscation_then_eval:
  "map (\<lambda>f. (severity f, category f, impact f))
     (check_obfuscation ''x = base64.b64decode(p).decode(); eval(x)'' ''scripts/a.py'') =
   [(CRITICAL, ''Obfuscation'', ''Executing obfuscated code - likely malicious'')]"
  by code_simp

lemma obfuscation_alone:
  "map (\<lambda>f. (severity f, category f, impact f))
     (check_obfuscation ''x = base64.b64decode(p).decode()'' ''scripts/a.py'') =
   [(MEDIUM, ''Obfuscation'', ''Code obfuscation detected - manual review required'')]"
  by code_simp

text \<open>
  The pattern \<^verbatim>\<open>\s\<close> also matches the no-break space: it may stand between the name
  of the call and its parenthesis, in an obfuscation pattern and in the call that follows.
\<close>

lemma obfuscation_then_exec_nbsp:
  "map (\<lambda>f. (severity f, category f, impact f))
     (check_obfuscation (''y = marshal.loads(b); exec'' @ [CHR 0xA0] @ ''(y)'') ''scripts/a.py'') =
   [(CRITICAL, ''Obfuscation'', ''Executing obfuscated code - likely malicious'')]"
  by code_simp

lemma obfuscation_fromhex_nbsp:
  "obfuscation_matches (''bytes.fromhex'' @ [CHR 0xA0] @ ''('') = [\<lparr>m_start = 0, m_end = 15\<rparr>]"
  by code_simp


subsection \<open>Hardcoded secrets\<close>

lemma is_placeholder_iff:
  "is_placeholder t \<longleftrightarrow> (\<exists>w\<in>set placeholders. \<exists>pre post. py_lower t = pre @ w @ post)"
  by (simp add: is_placeholder_def list_ex_iff py_in_iff)

lemma secrets_of_matches_filter:
  "secrets_of_matches content file_path desc ms =
     map (secret_finding content file_path desc)
         (filter (\<lambda>m. \<not> is_placeholder (group0 content m)) ms)"
  by (induction ms) simp_all

lemma check_hardcoded_secrets_filter:
  "check_hardcoded_secrets content file_path =
     map (\<lambda>(desc, m). secret_finding content file_path desc m)
         (filter (\<lambda>(desc, m). \<not> is_placeholder (group0 content m)) (secret_matches content))"
proof -
  have "concat (map (\<lambda>(r, desc). secrets_of_matches content file_path desc (finditer True r content)) ps) =
        map (\<lambda>(desc, m). secret_finding content file_path desc m)
         (filter (\<lambda>(desc, m). \<not> is_placeholder (group0 content m))
            (concat (map (\<lambda>(r, desc). map (\<lambda>m. (desc, m)) (finditer True r content)) ps)))"
    for ps :: "(regex \<times> string) list"
  proof (induction ps)
    case Nil
    show ?case by simp
  next
    case (Cons p ps)
    obtain r desc where p: "p = (r, desc)" by (cases p)
    show ?case
      using Cons.IH by (simp add: p secrets_of_matches_filter filter_map o_def)
  qed
  then show ?thesis by (simp add: check_hardcoded_secrets_def secret_matches_def)
qed

lemma secret_finding_evidence:
  "f \<in> set (check_hardcoded_secrets content file_path) \<Longrightarrow>
     evidence f = Some redaction_marker \<and> category f = ''Hardcoded Secrets''"
  by (auto simp: check_hardcoded_secrets_filter secret_finding_def redaction_marker_def)

text \<open>
  C6. The secrets check emits a finding for exactly those matches of a secret pattern whose
  matched text, lowered, contains none of the words example, placeholder, your_, xxx and
  test: a match whose text contains one of them, in any case, yields no finding.
\<close>

theorem secrets_skip_placeholders:
  "check_hardcoded_secrets content file_path =
     map (\<lambda>(desc, m). secret_finding content file_path desc m)
         (filter (\<lambda>(desc, m). \<not> (\<exists>w\<in>set placeholders. \<exists>pre post.
                                    py_lower (group0 content m) = pre @ w @ post))
                 (secret_matches content))"
  by (simp add: check_hardcoded_secrets_filter is_placeholder_iff)

theorem secrets_skip_placeholders_witness:
  "secret_matches ''PASSWORD = 'Your_Password';''
     = [(''Hardcoded password/secret'', \<lparr>m_start = 0, m_end = 25\<rparr>)]
   \<and> check_hardcoded_secrets ''PASSWORD = 'Your_Password';'' ''scripts/a.py'' = []"
proof -
  have m: "secret_matches ''PASSWORD = 'Your_Password';''
             = [(''Hardcoded password/secret'', \<lparr>m_start = 0, m_end = 25\<rparr>)]"
    by code_simp
  have "py_lower (group0 ''PASSWORD = 'Your_Password';'' \<lparr>m_start = 0, m_end = 25\<rparr>)
          = (''password = '' @ [CHR 0x27]) @ ''your_'' @ ''password''"
    by code_simp
  moreover have "''your_'' \<in> set placeholders"
    by (simp add: placeholders_def)
  ultimately have p: "\<exists>w\<in>set placeholders. \<exists>pre post.
      py_lower (group0 ''PASSWORD = 'Your_Password';'' \<lparr>m_start = 0, m_end = 25\<rparr>) = pre @ w @ post"
    by blast
  have "filter (\<lambda>(desc, m). \<not> (\<exists>w\<in>set placeholders. \<exists>pre post.
                  py_lower (group0 ''PASSWORD = 'Your_Password';'' m) = pre @ w @ post))
          (secret_matches ''PASSWORD = 'Your_Password';'') = []"
    unfolding m using p by simp
  then have "check_hardcoded_secrets ''PASSWORD = 'Your_Password';'' ''scripts/a.py'' = []"
    using secrets_skip_placeholders [of "''PASSWORD = 'Your_Password';''" "''scripts/a.py''"]
    by simp
  with m show ?thesis by simp
qed

text \<open>
  C5. Every finding of the secrets check carries the fixed redaction marker as its
  evidence, whatever the script text is: the findings of any two script texts have the same
  evidence.
\<close>

theorem secrets_evidence_redacted:
  "f1 \<in> set (check_hardcoded_secrets content1 path1) \<Longrightarrow>
   f2 \<in> set (check_hardcoded_secrets content2 path2) \<Longrightarrow>
     evidence f1 = Some ''*** (redacted for security)'' \<and> evidence f1 = evidence f2"
  by (auto simp: check_hardcoded_secrets_filter secret_finding_def)

theorem secrets_evidence_redacted_witness:
  "hd (check_hardcoded_secrets ''password = 'hunter22!';'' ''a.py'')
     \<in> set (check_hardcoded_secrets ''password = 'hunter22!';'' ''a.py'')
   \<and> hd (check_hardcoded_secrets ''password = 's3cr3t-k3y';'' ''a.py'')
     \<in> set (check_hardcoded_secrets ''password = 's3cr3t-k3y';'' ''a.py'')
   \<and> evidence (hd (check_hardcoded_secrets ''password = 'hunter22!';'' ''a.py''))
     = Some ''*** (redacted for security)''
   \<and> evidence (hd (check_hardcoded_secrets ''password = 'hunter22!';'' ''a.py''))
     = evidence (hd (check_hardcoded_secrets ''password = 's3cr3t-k3y';'' ''a.py''))"
proof -
  have n1: "length (check_hardcoded_secrets ''password = 'hunter22!';'' ''a.py'') = 1"
    by code_simp
  have n2: "length (check_hardcoded_secrets ''password = 's3cr3t-k3y';'' ''a.py'') = 1"
    by code_simp
  have h1: "hd (check_hardcoded_secrets ''password = 'hunter22!';'' ''a.py'')
              \<in> set (check_hardcoded_secrets ''password = 'hunter22!';'' ''a.py'')"
    using n1 by (cases "check_hardcoded_secrets ''password = 'hunter22!';'' ''a.py''") simp_all
  have h2: "hd (check_hardcoded_secrets ''password = 's3cr3t-k3y';'' ''a.py'')
              \<in> set (check_hardcoded_secrets ''password = 's3cr3t-k3y';'' ''a.py'')"
    using n2 by (cases "check_hardcoded_secrets ''password = 's3cr3t-k3y';'' ''a.py''") simp_all
  show ?thesis
    using h1 h2 secrets_evidence_redacted [OF h1 h2] by blast
qed

section \<open>Properties of the evidence extractor\<close>

text \<open>
  C9. The context operation never raises, but it does not treat a missing newline as the
  start or the end of the content: where no newline follows the offset, the context ends at
  the offset itself, and where none precedes it, the context starts at the offset. For a
  match on the last line of a text without a final newline the snippet is empty and does
  not hold the matched text; likewise for a text of one line. Where both newlines exist,
  the snippet is the line of the match.
\<close>

theorem get_code_context_last_line:
  "get_code_context ''x = 1\<newline>os.system(cmd)'' 6 1 1 = []
   \<and> get_code_context ''eval(x)'' 0 1 1 = []
   \<and> get_code_context ''x = 1\<newline>os.system(cmd)\<newline>'' 6 1 1 = ''os.system(cmd)''"
  by code_simp

section \<open>Properties of the file operations check\<close>

lemma find_aux_range: "find_aux p s i = -1 \<or> int i \<le> find_aux p s i"
proof (induction s arbitrary: i)
  case Nil
  show ?case by simp
next
  case (Cons x xs)
  show ?case using Cons.IH [of "Suc i"] by auto
qed

lemma find_aux_start: "find_aux p s i = int i \<longleftrightarrow> starts_with p s"
proof (cases s)
  case Nil
  then show ?thesis by simp
next
  case (Cons x xs)
  show ?thesis using find_aux_range [of p xs "Suc i"] by (auto simp: Cons)
qed

lemma py_find_zero: "py_find s p 0 = 0 \<longleftrightarrow> starts_with p s"
  using find_aux_start [of p s 0] by (simp add: py_find_def)

lemma py_find_range: "py_find s p 0 = -1 \<or> 0 \<le> py_find s p 0"
  using find_aux_range [of p s 0] by (simp add: py_find_def)

lemma dotdot_excludes_tmp: "starts_with ''../'' s \<Longrightarrow> \<not> starts_with ''/tmp/'' s"
  by (cases s) auto

lemma risky_offset_eq:
  "risky_offset content =
     (if py_find content ''../'' 0 \<noteq> 0 then py_find content ''../'' 0
      else py_find content ''/tmp/'' 0)"
proof (cases "py_find content ''../'' 0 = 0")
  case True
  then have "starts_with ''../'' content" by (simp add: py_find_zero)
  then have "py_find content ''/tmp/'' 0 \<noteq> 0"
    using dotdot_excludes_tmp by (simp add: py_find_zero)
  then show ?thesis using True by (simp add: risky_offset_def py_or_def)
next
  case False
  then show ?thesis by (simp add: risky_offset_def py_or_def)
qed

lemma risky_offset_nonzero: "risky_offset content \<noteq> 0"
proof (cases "py_find content ''../'' 0 = 0")
  case True
  then have "starts_with ''../'' content" by (simp add: py_find_zero)
  then have "py_find content ''/tmp/'' 0 \<noteq> 0"
    using dotdot_excludes_tmp by (simp add: py_find_zero)
  then show ?thesis using True by (simp add: risky_offset_eq)
next
  case False
  then show ?thesis by (simp add: risky_offset_eq)
qed

lemma risky_offset_range: "risky_offset content = -1 \<or> 0 < risky_offset content"
  using risky_offset_nonzero [of content]
        py_find_range [of content "''../''"] py_find_range [of content "''/tmp/''"]
  by (auto simp: risky_offset_eq split: if_splits)

lemma risky_line_eq:
  "risky_line content =
     (if risky_offset content < 0 then line_number content (length content - 1)
      else line_number content (nat (risky_offset content)))"
proof -
  have "nat (int (length content) - 1) = length content - 1" by simp
  then show ?thesis
    using risky_offset_range [of content]
    by (auto simp: risky_line_def Let_def py_slice_to_def line_number_def)
qed

lemma collect_length:
  assumes "\<And>x fs. f x = Inr fs \<Longrightarrow> length fs \<le> 1"
  shows "collect f xs = Inr fs \<Longrightarrow> length fs \<le> length xs"
proof (induction xs arbitrary: fs)
  case Nil
  then show ?case by simp
next
  case (Cons x xs)
  then show ?case
    using assms by (fastforce split: sum.splits)
qed

text \<open>
  C10. The file operations check appends at most one finding, HIGH and of category File
  Operations, for a Python file, so a run of the check never has more findings than there
  are Python paths. The chain \<^verbatim>\<open>find('../') or find('/tmp/') or find('/etc/')\<close> that is
  to locate the line of the risky path takes the result \<open>-1\<close> of a failed search for an
  offset and the offset 0 of a successful one for a failure. The offset behind the
  reported line is the first occurrence of \<^verbatim>\<open>../\<close> unless that is 0, and the result of
  searching \<^verbatim>\<open>/tmp/\<close> otherwise; the search for \<^verbatim>\<open>/etc/\<close> never decides, since a text
  that starts with \<^verbatim>\<open>../\<close> does not start with \<^verbatim>\<open>/tmp/\<close>. The offset is never 0, so the
  branch that reports line 0 is never taken: the reported line is the line of the last
  character of the file when the offset is \<open>-1\<close> (in particular whenever \<^verbatim>\<open>../\<close> is
  absent, whatever the lines of \<^verbatim>\<open>/tmp/\<close>, \<^verbatim>\<open>/etc/\<close> and \<^verbatim>\<open>/var/\<close>), and the line of
  the offset otherwise.
\<close>

theorem risky_line_cases:
  "length (file_operations_of content relative_path) \<le> 1
   \<and> (\<forall>f\<in>set (file_operations_of content relative_path).
         severity f = HIGH \<and> category f = ''File Operations''
         \<and> location f = location_of relative_path (risky_line content))
   \<and> (check_file_operations b = Inr fs \<longrightarrow> length fs \<le> length (rglob_py_root b))
   \<and> risky_offset content =
       (if py_find content ''../'' 0 \<noteq> 0 then py_find content ''../'' 0
        else py_find content ''/tmp/'' 0)
   \<and> risky_offset content \<noteq> 0
   \<and> (py_find content ''../'' 0 = -1 \<longrightarrow>
         risky_line content = line_number content (length content - 1))
   \<and> risky_line content =
       (if risky_offset content < 0 then line_number content (length content - 1)
        else line_number content (nat (risky_offset content)))
   \<and> 1 \<le> risky_line content"
proof -
  have a: "length (file_operations_of content relative_path) \<le> 1"
    by (simp add: file_operations_of_def)
  have b: "\<forall>f\<in>set (file_operations_of content relative_path).
         severity f = HIGH \<and> category f = ''File Operations''
         \<and> location f = location_of relative_path (risky_line content)"
    by (simp add: file_operations_of_def file_operations_finding_def)
  have c: "check_file_operations b = Inr fs \<longrightarrow> length fs \<le> length (rglob_py_root b)"
  proof
    assume r: "check_file_operations b = Inr fs"
    have "\<And>e gs. check_file_operation e = Inr gs \<Longrightarrow> length gs \<le> 1"
      by (auto simp: check_file_operation_def file_operations_of_def split: sum.splits if_splits)
    then show "length fs \<le> length (rglob_py_root b)"
      using r collect_length [of check_file_operation "rglob_py_root b" fs]
      by (simp add: check_file_operations_def)
  qed
  have d: "py_find content ''../'' 0 = -1 \<longrightarrow>
         risky_line content = line_number content (length content - 1)"
    by (simp add: risky_line_eq risky_offset_eq)
  have e: "1 \<le> risky_line content"
    by (simp add: risky_line_eq line_number_def)
  show ?thesis
    using a b c d e risky_offset_eq [of content] risky_offset_nonzero [of content]
          risky_line_eq [of content]
    by blast
qed

theorem risky_line_cases_witness:
  "py_find ''a\<newline>/tmp/x\<newline>b\<newline>c'' ''../'' 0 = -1
   \<and> file_operations_of ''a\<newline>/tmp/x\<newline>b\<newline>c'' ''scripts/a.py''
       = [file_operations_finding ''a\<newline>/tmp/x\<newline>b\<newline>c'' ''scripts/a.py'']
   \<and> line_number ''a\<newline>/tmp/x\<newline>b\<newline>c'' (nat (py_find ''a\<newline>/tmp/x\<newline>b\<newline>c'' ''/tmp/'' 0)) = 2
   \<and> risky_line ''a\<newline>/tmp/x\<newline>b\<newline>c'' = 4
   \<and> location (file_operations_finding ''a\<newline>/tmp/x\<newline>b\<newline>c'' ''scripts/a.py'') = ''scripts/a.py:4''"
proof -
  have h: "py_find ''a\<newline>/tmp/x\<newline>b\<newline>c'' ''../'' 0 = -1"
    by code_simp
  have s: "file_operations_of ''a\<newline>/tmp/x\<newline>b\<newline>c'' ''scripts/a.py''
       = [file_operations_finding ''a\<newline>/tmp/x\<newline>b\<newline>c'' ''scripts/a.py'']"
    by code_simp
  have l: "line_number ''a\<newline>/tmp/x\<newline>b\<newline>c'' (length ''a\<newline>/tmp/x\<newline>b\<newline>c'' - 1) = 4"
    by code_simp
  have t: "line_number ''a\<newline>/tmp/x\<newline>b\<newline>c'' (nat (py_find ''a\<newline>/tmp/x\<newline>b\<newline>c'' ''/tmp/'' 0)) = 2"
    by code_simp
  have n: "location_of ''scripts/a.py'' 4 = ''scripts/a.py:4''"
    by code_simp
  have r: "risky_line ''a\<newline>/tmp/x\<newline>b\<newline>c'' = 4"
    using risky_line_cases [of "''a\<newline>/tmp/x\<newline>b\<newline>c''" "''scripts/a.py''"] h l by simp
  have "location (file_operations_finding ''a\<newline>/tmp/x\<newline>b\<newline>c'' ''scripts/a.py'')
          = location_of ''scripts/a.py'' (risky_line ''a\<newline>/tmp/x\<newline>b\<newline>c'')"
    using risky_line_cases [of "''a\<newline>/tmp/x\<newline>b\<newline>c''" "''scripts/a.py''"] s by simp
  then show ?thesis using h s t r n by simp
qed

text \<open>
  A text that starts with \<^verbatim>\<open>../\<close>, has no \<^verbatim>\<open>/tmp/\<close> and has \<^verbatim>\<open>/etc/\<close> on its second
  line: the check matches, the search for \<^verbatim>\<open>/tmp/\<close> gives \<open>-1\<close> and ends the chain,
  \<^verbatim>\<open>/etc/\<close> is not searched, and the reported line is 3, the last line of the file,
  neither the line of \<^verbatim>\<open>/etc/\<close> nor 0.
\<close>

theorem risky_line_fallthrough_counterexample:
  "py_find ''../x\<newline>/etc/passwd\<newline>more\<newline>'' ''../'' 0 = 0
   \<and> py_find ''../x\<newline>/etc/passwd\<newline>more\<newline>'' ''/tmp/'' 0 = -1
   \<and> py_find ''../x\<newline>/etc/passwd\<newline>more\<newline>'' ''/etc/'' 0 = 5
   \<and> line_number ''../x\<newline>/etc/passwd\<newline>more\<newline>'' 5 = 2
   \<and> re_search False risky_path_pattern ''../x\<newline>/etc/passwd\<newline>more\<newline>''
   \<and> risky_offset ''../x\<newline>/etc/passwd\<newline>more\<newline>'' = -1
   \<and> risky_line ''../x\<newline>/etc/passwd\<newline>more\<newline>'' = 3"
  by code_simp

section \<open>Checks that raise\<close>

lemma run_checks_fails:
  "c \<in> set cs \<Longrightarrow> c b = Inl err \<Longrightarrow> \<exists>err'. run_checks cs b acc = Inl err'"
proof (induction cs arbitrary: acc)
  case Nil
  then show ?case by simp
next
  case (Cons d cs)
  show ?case
  proof (cases "d b")
    case (Inl e)
    then show ?thesis by simp
  next
    case (Inr fs)
    then have "c \<in> set cs" using Cons.prems by auto
    then show ?thesis using Cons.IH Cons.prems(2) Inr by simp
  qed
qed

lemma collect_fails:
  "x \<in> set xs \<Longrightarrow> f x = Inl err \<Longrightarrow> \<exists>err'. collect f xs = Inl err'"
proof (induction xs)
  case Nil
  then show ?case by simp
next
  case (Cons y ys)
  then show ?case by (cases "f y"; cases "collect f ys") auto
qed

section \<open>Properties of the dependency check\<close>

lemma dependency_findings_eq:
  "dependency_findings pkgs =
     map (\<lambda>pkg. supply_chain_finding pkg (the (map_of suspicious_packages pkg)))
         (filter (\<lambda>pkg. map_of suspicious_packages pkg \<noteq> None) pkgs)"
  by (induction pkgs) (auto split: option.splits)

lemma supply_chain_finding_inj:
  "supply_chain_finding pkg canonical = supply_chain_finding pkg' canonical' \<Longrightarrow> pkg = pkg'"
proof -
  assume "supply_chain_finding pkg canonical = supply_chain_finding pkg' canonical'"
  then have "title (supply_chain_finding pkg canonical) = title (supply_chain_finding pkg' canonical')"
    by simp
  then show "pkg = pkg'"
    by (simp add: supply_chain_finding_def)
qed

lemma dependency_findings_distinct:
  assumes "distinct pkgs"
  shows "distinct (dependency_findings pkgs)"
proof -
  have "inj_on (\<lambda>pkg. supply_chain_finding pkg (the (map_of suspicious_packages pkg))) A" for A
    by (rule inj_onI) (erule supply_chain_finding_inj)
  then show ?thesis
    using assms by (simp add: dependency_findings_eq distinct_map)
qed

lemma dependency_findings_set:
  "set (dependency_findings pkgs) =
     {supply_chain_finding pkg canonical | pkg canonical.
        pkg \<in> set pkgs \<and> map_of suspicious_packages pkg = Some canonical}"
  by (induction pkgs) (auto split: option.splits)

lemma dependency_findings_length:
  assumes "distinct pkgs"
  shows "length (dependency_findings pkgs) = card {pkg \<in> set pkgs. pkg \<in> fst ` set suspicious_packages}"
proof -
  have "length (dependency_findings pkgs)
          = length (filter (\<lambda>pkg. map_of suspicious_packages pkg \<noteq> None) pkgs)"
    by (simp add: dependency_findings_eq)
  also have "\<dots> = card ({pkg. map_of suspicious_packages pkg \<noteq> None} \<inter> set pkgs)"
    using assms by (rule distinct_length_filter)
  also have "{pkg. map_of suspicious_packages pkg \<noteq> None} \<inter> set pkgs
               = {pkg \<in> set pkgs. pkg \<in> fst ` set suspicious_packages}"
    by (auto simp: map_of_eq_None_iff)
  finally show ?thesis .
qed


lemma suspicious_packages_table:
  "map_of suspicious_packages pkg = Some canonical \<longleftrightarrow>
     (pkg, canonical) \<in> {(''reqeusts'', ''requests''), (''urlib'', ''urllib''),
                         (''subproces'', ''subprocess'')}"
  by (auto simp: suspicious_packages_def split: if_splits)

lemma suspicious_packages_keys:
  "fst ` set suspicious_packages = {''reqeusts'', ''urlib'', ''subproces''}"
  by (simp add: suspicious_packages_def)

lemma dependency_findings_mem:
  "f \<in> set (dependency_findings pkgs) \<longleftrightarrow>
     (\<exists>pkg canonical.
        pkg \<in> set pkgs
        \<and> (pkg, canonical) \<in> {(''reqeusts'', ''requests''), (''urlib'', ''urllib''),
                              (''subproces'', ''subprocess'')}
        \<and> f = \<lparr>severity = CRITICAL,
                category = ''Supply Chain'',
                title = ''Typosquatting attempt: '' @ pkg,
                description = ''Package '' @ [CHR 0x27] @ pkg @ [CHR 0x27] @ '' looks like typo of ''
                              @ [CHR 0x27] @ canonical @ [CHR 0x27],
                location = ''scripts/'',
                evidence = None,
                impact = ''Could be malicious package masquerading as legitimate library''\<rparr>)"
proof -
  have "f \<in> set (dependency_findings pkgs) \<longleftrightarrow>
          (\<exists>pkg canonical.
             pkg \<in> set pkgs \<and> map_of suspicious_packages pkg = Some canonical
             \<and> f = supply_chain_finding pkg canonical)"
    unfolding dependency_findings_set by blast
  then show ?thesis
    unfolding suspicious_packages_table supply_chain_finding_def .
qed

lemma read_all_can_open:
  "list_all can_open es \<Longrightarrow> read_all es = Inr (map file_text es)"
  by (induction es) (simp_all add: read_text_ignore_def)

lemma read_all_fails:
  "\<not> list_all can_open es \<Longrightarrow> \<exists>err. read_all es = Inl err"
proof (induction es)
  case Nil
  then show ?case by simp
next
  case (Cons e es)
  show ?case
  proof (cases "can_open e")
    case False
    then show ?thesis by (simp add: read_text_ignore_def)
  next
    case True
    then have "\<not> list_all can_open es"
      using Cons.prems by simp
    then obtain err where "read_all es = Inl err"
      using Cons.IH by blast
    then show ?thesis
      using True by (simp add: read_text_ignore_def)
  qed
qed

text \<open>
  C8. Where the \<^verbatim>\<open>scripts\<close> directory exists and every \<^verbatim>\<open>*.py\<close> path below it can be
  opened, the dependency check returns, whatever the order in which the set of imported
  identifiers is iterated, a list without repetition that holds exactly one finding for
  each imported identifier among \<^verbatim>\<open>reqeusts\<close>, \<^verbatim>\<open>urlib\<close> and \<^verbatim>\<open>subproces\<close>, however
  many files and lines import it: CRITICAL, of category Supply Chain, its title naming the
  identifier and its description the canonical package \<^verbatim>\<open>requests\<close>, \<^verbatim>\<open>urllib\<close> or
  \<^verbatim>\<open>subprocess\<close>. Where one of these paths cannot be opened, the check raises instead:
  it returns no finding and the scan ends with an error and without a report, although the
  script analyzer answers the same failure with a File Access finding and goes on.
\<close>

theorem check_dependencies_typosquats:
  assumes "lists_set set_order" and "path_exists b [''scripts'']"
  shows "(list_all can_open (rglob_py b ''scripts'') \<longrightarrow>
            (\<exists>fs. check_dependencies set_order b = Inr fs
               \<and> distinct fs
               \<and> (\<forall>f. f \<in> set fs \<longleftrightarrow>
                     (\<exists>pkg canonical.
                        pkg \<in> set (concat (map (\<lambda>e. find_imports (file_text e))
                                                (rglob_py b ''scripts'')))
                        \<and> (pkg, canonical) \<in> {(''reqeusts'', ''requests''), (''urlib'', ''urllib''),
                                              (''subproces'', ''subprocess'')}
                        \<and> f = \<lparr>severity = CRITICAL,
                                category = ''Supply Chain'',
                                title = ''Typosquatting attempt: '' @ pkg,
                                description = ''Package '' @ [CHR 0x27] @ pkg @ [CHR 0x27]
                                              @ '' looks like typo of ''
                                              @ [CHR 0x27] @ canonical @ [CHR 0x27],
                                location = ''scripts/'',
                                evidence = None,
                                impact = ''Could be malicious package masquerading as legitimate library''\<rparr>))
               \<and> length fs =
                   card {pkg \<in> set (concat (map (\<lambda>e. find_imports (file_text e))
                                                 (rglob_py b ''scripts''))).
                         pkg \<in> {''reqeusts'', ''urlib'', ''subproces''}}))
         \<and> (\<not> list_all can_open (rglob_py b ''scripts'') \<longrightarrow>
               (\<exists>err. check_dependencies set_order b = Inl err)
               \<and> (\<exists>err. scan set_order now b = Inl err))
         \<and> (\<forall>e\<in>set (rglob_py b ''scripts'').
               \<not> can_open e \<longrightarrow> analyze_script e = [file_access_finding e])"
    (is "?readable \<and> ?unreadable \<and> ?sibling")
proof -
  let ?imports = "concat (map (\<lambda>e. find_imports (file_text e)) (rglob_py b ''scripts''))"
  let ?fs = "dependency_findings (set_order ?imports)"
  have 1: ?readable
  proof (rule impI)
    assume r: "list_all can_open (rglob_py b ''scripts'')"
    have a: "all_imports b = Inr ?imports"
      using read_all_can_open [OF r] by (simp add: all_imports_def o_def)
    have d: "distinct (set_order ?imports)" and s: "set (set_order ?imports) = set ?imports"
      using assms(1) by (simp_all add: lists_set_def)
    have c: "check_dependencies set_order b = Inr ?fs"
      using assms(2) a by (simp add: check_dependencies_def)
    show "\<exists>fs. check_dependencies set_order b = Inr fs
               \<and> distinct fs
               \<and> (\<forall>f. f \<in> set fs \<longleftrightarrow>
                     (\<exists>pkg canonical.
                        pkg \<in> set ?imports
                        \<and> (pkg, canonical) \<in> {(''reqeusts'', ''requests''), (''urlib'', ''urllib''),
                                              (''subproces'', ''subprocess'')}
                        \<and> f = \<lparr>severity = CRITICAL,
                                category = ''Supply Chain'',
                                title = ''Typosquatting attempt: '' @ pkg,
                                description = ''Package '' @ [CHR 0x27] @ pkg @ [CHR 0x27]
                                              @ '' looks like typo of ''
                                              @ [CHR 0x27] @ canonical @ [CHR 0x27],
                                location = ''scripts/'',
                                evidence = None,
                                impact = ''Could be malicious package masquerading as legitimate library''\<rparr>))
               \<and> length fs = card {pkg \<in> set ?imports. pkg \<in> {''reqeusts'', ''urlib'', ''subproces''}}"
    proof (intro exI conjI allI)
      show "check_dependencies set_order b = Inr ?fs"
        by (rule c)
      show "distinct ?fs"
        by (rule dependency_findings_distinct [OF d])
      show "f \<in> set ?fs \<longleftrightarrow>
               (\<exists>pkg canonical.
                  pkg \<in> set ?imports
                  \<and> (pkg, canonical) \<in> {(''reqeusts'', ''requests''), (''urlib'', ''urllib''),
                                        (''subproces'', ''subprocess'')}
                  \<and> f = \<lparr>severity = CRITICAL,
                          category = ''Supply Chain'',
                          title = ''Typosquatting attempt: '' @ pkg,
                          description = ''Package '' @ [CHR 0x27] @ pkg @ [CHR 0x27]
                                        @ '' looks like typo of ''
                                        @ [CHR 0x27] @ canonical @ [CHR 0x27],
                          location = ''scripts/'',
                          evidence = None,
                          impact = ''Could be malicious package masquerading as legitimate library''\<rparr>)" for f
        using dependency_findings_mem [of f "set_order ?imports"] unfolding s .
      show "length ?fs = card {pkg \<in> set ?imports. pkg \<in> {''reqeusts'', ''urlib'', ''subproces''}}"
        using dependency_findings_length [OF d] unfolding s suspicious_packages_keys .
    qed
  qed
  have 2: ?unreadable
  proof (intro impI conjI)
    assume "\<not> list_all can_open (rglob_py b ''scripts'')"
    then obtain err where "read_all (rglob_py b ''scripts'') = Inl err"
      using read_all_fails by blast
    then have c: "check_dependencies set_order b = Inl err"
      using assms(2) by (simp add: check_dependencies_def all_imports_def)
    then show "\<exists>err. check_dependencies set_order b = Inl err"
      by (rule exI)
    have "check_dependencies set_order \<in> set (checks set_order)"
      by (simp add: checks_def)
    then obtain err' where "run_checks (checks set_order) b [] = Inl err'"
      using run_checks_fails c by blast
    then show "\<exists>err. scan set_order now b = Inl err"
      by (simp add: scan_def)
  qed
  have 3: ?sibling
    by (simp add: analyze_script_def read_text_strict_def)
  show ?thesis
    by (intro conjI 1 2 3)
qed

text \<open>
  Two scripts that import \<^verbatim>\<open>reqeusts\<close> three times between them give the one finding
  that names \<^verbatim>\<open>requests\<close>; with a script beside them that cannot be opened, the check and
  the scan raise.
\<close>

theorem check_dependencies_typosquats_witness:
  "lists_set remdups
   \<and> path_exists typosquat_bundle [''scripts'']
   \<and> list_all can_open (rglob_py typosquat_bundle ''scripts'')
   \<and> (\<exists>fs. check_dependencies remdups typosquat_bundle = Inr fs \<and> distinct fs)
   \<and> check_dependencies remdups typosquat_bundle =
       Inr [\<lparr>severity = CRITICAL,
             category = ''Supply Chain'',
             title = ''Typosquatting attempt: reqeusts'',
             description = ''Package 'reqeusts' looks like typo of 'requests'' @ [CHR 0x27],
             location = ''scripts/'',
             evidence = None,
             impact = ''Could be malicious package masquerading as legitimate library''\<rparr>]
   \<and> path_exists unreadable_script_bundle [''scripts'']
   \<and> \<not> list_all can_open (rglob_py unreadable_script_bundle ''scripts'')
   \<and> (\<exists>err. check_dependencies remdups unreadable_script_bundle = Inl err)
   \<and> (\<exists>err. scan remdups ''2026-01-01T00:00:00Z'' unreadable_script_bundle = Inl err)
   \<and> scan remdups ''2026-01-01T00:00:00Z'' unreadable_script_bundle
       = Inl (OpenFailed [''scripts'', ''b.py''])
   \<and> analyze_script (unreadable_file [''scripts'', ''b.py''])
       = [file_access_finding (unreadable_file [''scripts'', ''b.py''])]"
proof -
  have h1: "lists_set remdups"
    by (simp add: lists_set_def)
  have h2: "path_exists typosquat_bundle [''scripts'']"
    by code_simp
  have h3: "list_all can_open (rglob_py typosquat_bundle ''scripts'')"
    by code_simp
  have e: "check_dependencies remdups typosquat_bundle =
       Inr [\<lparr>severity = CRITICAL,
             category = ''Supply Chain'',
             title = ''Typosquatting attempt: reqeusts'',
             description = ''Package 'reqeusts' looks like typo of 'requests'' @ [CHR 0x27],
             location = ''scripts/'',
             evidence = None,
             impact = ''Could be malicious package masquerading as legitimate library''\<rparr>]"
    by code_simp
  have g2: "path_exists unreadable_script_bundle [''scripts'']"
    by code_simp
  have g3: "\<not> list_all can_open (rglob_py unreadable_script_bundle ''scripts'')"
    by code_simp
  have s: "scan remdups ''2026-01-01T00:00:00Z'' unreadable_script_bundle
             = Inl (OpenFailed [''scripts'', ''b.py''])"
    by code_simp
  have a: "analyze_script (unreadable_file [''scripts'', ''b.py''])
             = [file_access_finding (unreadable_file [''scripts'', ''b.py''])]"
    by code_simp
  note t = check_dependencies_typosquats [OF h1 h2, of "''2026-01-01T00:00:00Z''"]
  note u = check_dependencies_typosquats [OF h1 g2, of "''2026-01-01T00:00:00Z''"]
  have r: "\<exists>fs. check_dependencies remdups typosquat_bundle = Inr fs \<and> distinct fs"
    using t [THEN conjunct1, rule_format, OF h3]
    by (elim exE conjE) (intro exI conjI, assumption+)
  note v = u [THEN conjunct2, THEN conjunct1, rule_format, OF g3]
  show ?thesis
    by (intro conjI h1 h2 h3 r e g2 g3 v [THEN conjunct1] v [THEN conjunct2] s a)
qed

section \<open>Properties of the scan as a whole\<close>

text \<open>
  C3. An asset file that cannot be opened is not skipped. For every bundle that has, below
  \<^verbatim>\<open>assets\<close>, a file with one of the checked suffixes that cannot be opened, the scan ends
  with an error and produces no report. The reference analyzer does skip such a file:
  its loop body yields no finding and no error.
\<close>

theorem scan_unreadable_asset_fails:
  assumes "path_exists b [''assets'']"
    and "e \<in> set (entries b)"
    and "below ''assets'' e"
    and "is_file e"
    and "entry_suffix e \<in> set asset_suffixes"
    and "\<not> can_open e"
  shows "(\<exists>err. scan_assets b = Inl err) \<and> (\<exists>err. scan set_order now b = Inl err)
         \<and> scan_reference e = []"
proof -
  have m: "e \<in> set (filter is_file (rglob_all b ''assets''))"
    using assms(2,3,4) by (simp add: rglob_all_def)
  have f: "scan_asset e = Inl (OpenFailed (rel_path e))"
    using assms(5,6) by (simp add: scan_asset_def)
  obtain err where c: "collect scan_asset (filter is_file (rglob_all b ''assets'')) = Inl err"
    using collect_fails [of e _ scan_asset, OF m f] by blast
  have a: "scan_assets b = Inl err"
    using assms(1) c by (simp add: scan_assets_def)
  have "scan_assets \<in> set (checks set_order)"
    by (simp add: checks_def)
  then obtain err' where "run_checks (checks set_order) b [] = Inl err'"
    using run_checks_fails a by blast
  then have "\<exists>err. scan set_order now b = Inl err"
    by (simp add: scan_def)
  moreover have "scan_reference e = []"
    using assms(6) by (simp add: scan_reference_def read_text_ignore_def)
  ultimately show ?thesis using a by blast
qed

theorem scan_unreadable_asset_fails_witness:
  "path_exists unreadable_asset_bundle [''assets'']
   \<and> unreadable_file [''assets'', ''logo.png''] \<in> set (entries unreadable_asset_bundle)
   \<and> below ''assets'' (unreadable_file [''assets'', ''logo.png''])
   \<and> is_file (unreadable_file [''assets'', ''logo.png''])
   \<and> entry_suffix (unreadable_file [''assets'', ''logo.png'']) \<in> set asset_suffixes
   \<and> \<not> can_open (unreadable_file [''assets'', ''logo.png''])
   \<and> (\<exists>err. scan remdups ''2026-01-01T00:00:00Z'' unreadable_asset_bundle = Inl err)
   \<and> scan remdups ''2026-01-01T00:00:00Z'' unreadable_asset_bundle
       = Inl (OpenFailed [''assets'', ''logo.png''])
   \<and> findings_of (scan remdups ''2026-01-01T00:00:00Z'' unreadable_reference_bundle) = Some []"
proof -
  have h1: "path_exists unreadable_asset_bundle [''assets'']"
    by code_simp
  have h2: "unreadable_file [''assets'', ''logo.png''] \<in> set (entries unreadable_asset_bundle)"
    by (simp add: unreadable_asset_bundle_def example_bundle_def)
  have h3: "below ''assets'' (unreadable_file [''assets'', ''logo.png''])"
    by code_simp
  have h4: "is_file (unreadable_file [''assets'', ''logo.png''])"
    by code_simp
  have h5: "entry_suffix (unreadable_file [''assets'', ''logo.png'']) \<in> set asset_suffixes"
    by code_simp
  have h6: "\<not> can_open (unreadable_file [''assets'', ''logo.png''])"
    by code_simp
  have e1: "scan remdups ''2026-01-01T00:00:00Z'' unreadable_asset_bundle
              = Inl (OpenFailed [''assets'', ''logo.png''])"
    by code_simp
  have e2: "findings_of (scan remdups ''2026-01-01T00:00:00Z'' unreadable_reference_bundle) = Some []"
    by code_simp
  have "\<exists>err. scan remdups ''2026-01-01T00:00:00Z'' unreadable_asset_bundle = Inl err"
    using scan_unreadable_asset_fails [OF h1 h2 h3 h4 h5 h6, of remdups "''2026-01-01T00:00:00Z''"]
    by (elim conjE)
  then show ?thesis
    by (intro conjI h1 h2 h3 h4 h5 h6 e1 e2)
qed

section \<open>Properties of a scan without manifest\<close>

subsection \<open>The category of the findings of each check\<close>













subsection \<open>The checks that look for the manifest\<close>





subsection \<open>The findings of a report\<close>




subsection \<open>A scan whose reads succeed returns a report\<close>









end
